theory Spec2Isabelle
  imports Complex_Main
begin

section \<open>Data model\<close>

text \<open>
  Dates are pandas timestamps in the source. The calculators only ever compare them
  (\<open><\<close>, \<open>\<le>\<close>, \<open>\<ge>\<close>, sorting), so a date is modelled as an integer whose order is the
  calendar order. Concrete dates are written with \<open>ymd\<close>, which maps year, month and
  day to the number yyyymmdd; on valid calendar dates this keeps the order.
\<close>

type_synonym date = int

definition ymd :: "int \<Rightarrow> int \<Rightarrow> int \<Rightarrow> date" where
  "ymd y m d = y * 10000 + m * 100 + d"

text \<open>
  One row of a match table (\<open>rm_matches\<close>, \<open>opp_matches\<close>, \<open>all_matches.csv\<close>).
  Numeric cells may hold NaN, which is \<open>None\<close> here. Floating point cells (the PPM
  columns, \<open>real_result\<close>) are idealised as rationals. \<open>other_checked_nan\<close> says
  that one of the remaining columns inspected by \<open>check_NaN_column_in_RM_matches\<close>
  (\<open>home_team\<close>, \<open>away_team\<close>, \<open>home_points\<close>, \<open>away_points\<close>, the three rating
  columns) is present in the frame and holds NaN in this row.
\<close>

record match =
  match_date :: date
  home_team_id :: int
  away_team_id :: int
  home_goals :: "int option"
  away_goals :: "int option"
  PPM_H :: "rat option"
  PPM_A :: "rat option"
  goals :: "int option"
  real_result :: "rat option"
  other_checked_nan :: bool

record season =
  name :: string
  start_date :: date
  end_date :: date

section \<open>SeasonManager (rm\_players/season\_manager.py)\<close>

text \<open>\<open>SEASON_DATES\<close> of data\_processing/const\_variable.py, as \<open>SeasonManager.__init__\<close> stores them.\<close>

definition seasons_init :: "season list" where
  "seasons_init =
    [\<lparr>name = ''2019-2020'', start_date = ymd 2019 8 16, end_date = ymd 2020 7 19\<rparr>,
     \<lparr>name = ''2020-2021'', start_date = ymd 2020 9 12, end_date = ymd 2021 5 23\<rparr>,
     \<lparr>name = ''2021-2022'', start_date = ymd 2021 8 13, end_date = ymd 2022 5 22\<rparr>,
     \<lparr>name = ''2022-2023'', start_date = ymd 2022 8 12, end_date = ymd 2023 6 4\<rparr>,
     \<lparr>name = ''2023-2024'', start_date = ymd 2023 8 11, end_date = ymd 2024 5 26\<rparr>,
     \<lparr>name = ''2024-2025'', start_date = ymd 2024 8 16, end_date = ymd 2025 3 16\<rparr>]"

text \<open>\<open>get_season\<close>: the first season whose closed date range holds the date, else \<open>None\<close>.\<close>

fun get_season :: "season list \<Rightarrow> date \<Rightarrow> season option" where
  "get_season [] d = None"
| "get_season (s # ss) d =
     (if start_date s \<le> d \<and> d \<le> end_date s then Some s else get_season ss d)"

text \<open>
  The generator \<open>next(i for i, s in enumerate(self.seasons) if s["name"] == season["name"])\<close>:
  the first index with that name; \<open>None\<close> stands for \<open>StopIteration\<close>.
\<close>

fun index_by_name :: "season list \<Rightarrow> string \<Rightarrow> nat option" where
  "index_by_name [] n = None"
| "index_by_name (s # ss) n =
     (if name s = n then Some 0
      else (case index_by_name ss n of None \<Rightarrow> None | Some i \<Rightarrow> Some (Suc i)))"

text \<open>
  The three kinds of value \<open>get_previous_season\<close> returns: \<open>None\<close>, the boolean
  \<open>True\<close> (first season) and a season dictionary.
\<close>

datatype prev_season = NoSeason | FirstSeason | PrevSeason season

definition get_previous_season :: "season list \<Rightarrow> season option \<Rightarrow> prev_season" where
  "get_previous_season seasons cur =
     (case cur of
        None \<Rightarrow> NoSeason
      | Some s \<Rightarrow>
          (case index_by_name seasons (name s) of
             None \<Rightarrow> NoSeason
           | Some i \<Rightarrow> if i = 0 then FirstSeason else PrevSeason (seasons ! (i - 1))))"

section \<open>pandas and Python values\<close>

text \<open>
  Comparisons with NaN are false in pandas, also \<open>NaN == NaN\<close>; \<open>Series.sum()\<close> skips NaN
  (and is 0 on an empty or all-NaN column).
\<close>

definition nan_gt :: "('a::linorder) option \<Rightarrow> 'a option \<Rightarrow> bool" where
  "nan_gt a b = (case a of None \<Rightarrow> False
                 | Some x \<Rightarrow> (case b of None \<Rightarrow> False | Some y \<Rightarrow> y < x))"

definition nan_eq :: "'a option \<Rightarrow> 'a option \<Rightarrow> bool" where
  "nan_eq a b = (case a of None \<Rightarrow> False
                 | Some x \<Rightarrow> (case b of None \<Rightarrow> False | Some y \<Rightarrow> x = y))"

definition gt_const :: "rat option \<Rightarrow> rat \<Rightarrow> bool" where
  "gt_const a c = (case a of None \<Rightarrow> False | Some x \<Rightarrow> c < x)"

definition ge_const :: "rat option \<Rightarrow> rat \<Rightarrow> bool" where
  "ge_const a c = (case a of None \<Rightarrow> False | Some x \<Rightarrow> c \<le> x)"

definition le_const :: "rat option \<Rightarrow> rat \<Rightarrow> bool" where
  "le_const a c = (case a of None \<Rightarrow> False | Some x \<Rightarrow> x \<le> c)"

definition skipna :: "('a::zero) option \<Rightarrow> 'a" where
  "skipna a = (case a of None \<Rightarrow> 0 | Some x \<Rightarrow> x)"

definition sum_skipna :: "('a::comm_monoid_add) option list \<Rightarrow> 'a" where
  "sum_skipna xs = sum_list (map skipna xs)"

text \<open>\<open>df.sort_values('match_date', ascending=False)\<close>; rows of equal date keep their order here.\<close>

definition sort_desc :: "match list \<Rightarrow> match list" where
  "sort_desc ms = sort_key (\<lambda>m. - match_date m) ms"

text \<open>
  The values the calculators hand back: \<open>None\<close>, \<open>False\<close>, \<open>np.nan\<close> and numbers.
  A raised exception is the left summand of the result type.
\<close>

datatype pyval = PyNone | PyFalse | PyNaN | PyNum rat

datatype py_error = TypeError

section \<open>Configuration (rm\_team/config.py, rm\_h2h/config.py)\<close>

definition WIN_POINTS :: int where "WIN_POINTS = 3"
definition DRAW_POINTS :: int where "DRAW_POINTS = 1"
definition TOP_TIER_MIN_PPM :: rat where "TOP_TIER_MIN_PPM = 19 / 10"
definition MID_TIER_MIN_PPM :: rat where "MID_TIER_MIN_PPM = 12 / 10"
definition MID_TIER_MAX_PPM :: rat where "MID_TIER_MAX_PPM = 19 / 10"
definition LOW_TIER_MAX_PPM :: rat where "LOW_TIER_MAX_PPM = 12 / 10"
definition REAL_MADRID_ID :: int where "REAL_MADRID_ID = 1"

section \<open>SeasonCalculator (rm\_team/season\_calculator.py)\<close>

text \<open>
  \<open>get_all_opp_matches\<close> reads \<open>all_matches.csv\<close>; the rows of that file are the
  argument \<open>all_matches\<close> here and of every function that calls it. It returns \<open>None\<close>
  when the team has no row at all.
\<close>

definition get_all_opp_matches :: "match list \<Rightarrow> int \<Rightarrow> match list option" where
  "get_all_opp_matches all_matches tid =
     (let team_matches = filter (\<lambda>m. home_team_id m = tid \<or> away_team_id m = tid) all_matches
      in if team_matches = [] then None else Some team_matches)"

record season_calculator =
  sc_rm_matches :: "match list"
  sc_season_manager :: "season list"
  sc_team_id :: int

text \<open>Points of the queried team from goal comparison, as both non-focal branches count them.\<close>

definition goal_points :: "int \<Rightarrow> match list \<Rightarrow> int" where
  "goal_points tid ms =
     (let home_games = filter (\<lambda>m. home_team_id m = tid) ms;
          away_games = filter (\<lambda>m. away_team_id m = tid) ms;
          home_wins = length (filter (\<lambda>m. nan_gt (home_goals m) (away_goals m)) home_games);
          away_wins = length (filter (\<lambda>m. nan_gt (away_goals m) (home_goals m)) away_games);
          home_draws = length (filter (\<lambda>m. nan_eq (home_goals m) (away_goals m)) home_games);
          away_draws = length (filter (\<lambda>m. nan_eq (away_goals m) (home_goals m)) away_games);
          total_wins = int home_wins + int away_wins;
          total_draws = int home_draws + int away_draws
      in total_wins * WIN_POINTS + total_draws * DRAW_POINTS)"

text \<open>Points of the focal team from the \<open>real_result\<close> column (1 win, 0.5 draw).\<close>

definition real_result_points :: "match list \<Rightarrow> int" where
  "real_result_points ms =
     int (length (filter (\<lambda>m. real_result m = Some 1) ms)) * WIN_POINTS
     + int (length (filter (\<lambda>m. real_result m = Some (1 / 2)) ms)) * DRAW_POINTS"

definition calculate_team_points_per_match_season ::
  "season_calculator \<Rightarrow> match list \<Rightarrow> date \<Rightarrow> py_error + pyval" where
  "calculate_team_points_per_match_season self all_matches d =
     (let current_season = get_season (sc_season_manager self) d;
          previous_season = get_previous_season (sc_season_manager self) current_season
      in if sc_team_id self \<noteq> 1 then
           (case get_all_opp_matches all_matches (sc_team_id self) of
              None \<Rightarrow> Inr PyNone
            | Some opp_matches \<Rightarrow>
                (case previous_season of
                   FirstSeason \<Rightarrow> Inr (PyNum 0)
                 | NoSeason \<Rightarrow> Inl TypeError
                 | PrevSeason p \<Rightarrow>
                     (let filtered_matches =
                            filter (\<lambda>m. start_date p \<le> match_date m \<and> match_date m < d) opp_matches
                      in if length filtered_matches = 0 then Inr PyNaN
                         else Inr (PyNum (of_int (goal_points (sc_team_id self) filtered_matches)
                                          / of_nat (length filtered_matches))))))
         else
           (case previous_season of
              FirstSeason \<Rightarrow> Inr (PyNum 0)
            | NoSeason \<Rightarrow> Inr (PyNum 0)
            | PrevSeason p \<Rightarrow>
                (let filtered_matches =
                       filter (\<lambda>m. start_date p \<le> match_date m \<and> match_date m < d) (sc_rm_matches self)
                 in if length filtered_matches = 0 then Inr PyNaN
                    else Inr (PyNum (of_int (real_result_points filtered_matches)
                                     / of_nat (length filtered_matches))))))"

text \<open>
  The tier filters of \<open>calculate_team_stats_against_tier\<close>: for another team the PPM of
  the side that is not the team; for the focal team the PPM of either side.
\<close>

definition tier_matches_opp :: "int \<Rightarrow> rat \<Rightarrow> rat option \<Rightarrow> match list \<Rightarrow> match list" where
  "tier_matches_opp tid min_ppm max_ppm filtered_matches =
     (case max_ppm of
        None \<Rightarrow>
          filter (\<lambda>m. (home_team_id m = tid \<and> gt_const (PPM_A m) min_ppm)
                    \<or> (away_team_id m = tid \<and> gt_const (PPM_H m) min_ppm)) filtered_matches
      | Some mx \<Rightarrow>
          filter (\<lambda>m. (home_team_id m = tid \<and> ge_const (PPM_A m) min_ppm \<and> le_const (PPM_A m) mx)
                    \<or> (away_team_id m = tid \<and> ge_const (PPM_H m) min_ppm \<and> le_const (PPM_H m) mx))
            filtered_matches)"

definition tier_matches_rm :: "rat \<Rightarrow> rat option \<Rightarrow> match list \<Rightarrow> match list" where
  "tier_matches_rm min_ppm max_ppm filtered_matches =
     (case max_ppm of
        None \<Rightarrow>
          filter (\<lambda>m. gt_const (PPM_H m) min_ppm \<or> gt_const (PPM_A m) min_ppm) filtered_matches
      | Some mx \<Rightarrow>
          filter (\<lambda>m. (ge_const (PPM_H m) min_ppm \<and> le_const (PPM_H m) mx)
                    \<or> (ge_const (PPM_A m) min_ppm \<and> le_const (PPM_A m) mx)) filtered_matches)"

text \<open>The date window of the tier statistics, per branch.\<close>

definition tier_window_opp :: "prev_season \<Rightarrow> date \<Rightarrow> match list \<Rightarrow> (py_error + match list)" where
  "tier_window_opp previous_season d opp_matches =
     (case previous_season of
        FirstSeason \<Rightarrow>
          Inr (filter (\<lambda>m. ymd 2019 8 1 \<le> match_date m \<and> match_date m < d) opp_matches)
      | NoSeason \<Rightarrow> Inl TypeError
      | PrevSeason p \<Rightarrow>
          Inr (filter (\<lambda>m. match_date m < d \<and> start_date p \<le> match_date m) opp_matches))"

definition tier_window_rm :: "season \<Rightarrow> date \<Rightarrow> match list \<Rightarrow> match list" where
  "tier_window_rm p d rm = filter (\<lambda>m. match_date m < d \<and> start_date p < match_date m) rm"

definition calculate_team_stats_against_tier ::
  "season_calculator \<Rightarrow> match list \<Rightarrow> date \<Rightarrow> rat \<Rightarrow> rat option \<Rightarrow> py_error + (pyval \<times> pyval)" where
  "calculate_team_stats_against_tier self all_matches d min_ppm max_ppm =
     (let current_season = get_season (sc_season_manager self) d;
          previous_season = get_previous_season (sc_season_manager self) current_season
      in if sc_team_id self \<noteq> 1 then
           (case get_all_opp_matches all_matches (sc_team_id self) of
              None \<Rightarrow> Inr (PyFalse, PyFalse)
            | Some opp_matches \<Rightarrow>
                (case tier_window_opp previous_season d opp_matches of
                   Inl e \<Rightarrow> Inl e
                 | Inr filtered_matches \<Rightarrow>
                     (let tier_matches =
                            tier_matches_opp (sc_team_id self) min_ppm max_ppm filtered_matches
                      in if length tier_matches = 0 then Inr (PyNaN, PyNaN)
                         else
                           (let home_games = filter (\<lambda>m. home_team_id m = sc_team_id self) tier_matches;
                                away_games = filter (\<lambda>m. away_team_id m = sc_team_id self) tier_matches
                            in if home_games = [] \<and> away_games = [] then Inr (PyNaN, PyNaN)
                               else
                                 (let goals_scored = (sum_skipna (map home_goals home_games) :: int)
                                                     + sum_skipna (map away_goals away_games);
                                      total_points = goal_points (sc_team_id self) tier_matches
                                  in Inr (PyNum (of_int goals_scored / of_nat (length tier_matches)),
                                          PyNum (of_int total_points / of_nat (length tier_matches))))))))
         else
           (case previous_season of
              FirstSeason \<Rightarrow> Inr (PyFalse, PyFalse)
            | NoSeason \<Rightarrow> Inr (PyFalse, PyFalse)
            | PrevSeason p \<Rightarrow>
                (let filtered_matches = tier_window_rm p d (sc_rm_matches self);
                     tier_matches = tier_matches_rm min_ppm max_ppm filtered_matches
                 in if length tier_matches = 0 then Inr (PyNaN, PyNaN)
                    else
                      (let goals_scored = (sum_skipna (map goals tier_matches) :: int);
                           points = real_result_points tier_matches
                       in Inr (PyNum (of_int goals_scored / of_nat (length tier_matches)),
                               PyNum (of_int points / of_nat (length tier_matches)))))))"

definition calculate_team_goals_against_top ::
  "season_calculator \<Rightarrow> match list \<Rightarrow> date \<Rightarrow> py_error + pyval" where
  "calculate_team_goals_against_top self all_matches d =
     map_sum id fst (calculate_team_stats_against_tier self all_matches d TOP_TIER_MIN_PPM None)"

definition calculate_team_points_against_top ::
  "season_calculator \<Rightarrow> match list \<Rightarrow> date \<Rightarrow> py_error + pyval" where
  "calculate_team_points_against_top self all_matches d =
     map_sum id snd (calculate_team_stats_against_tier self all_matches d TOP_TIER_MIN_PPM None)"

definition calculate_team_goals_against_mid ::
  "season_calculator \<Rightarrow> match list \<Rightarrow> date \<Rightarrow> py_error + pyval" where
  "calculate_team_goals_against_mid self all_matches d =
     map_sum id fst (calculate_team_stats_against_tier self all_matches d
                       MID_TIER_MIN_PPM (Some MID_TIER_MAX_PPM))"

definition calculate_team_points_against_mid ::
  "season_calculator \<Rightarrow> match list \<Rightarrow> date \<Rightarrow> py_error + pyval" where
  "calculate_team_points_against_mid self all_matches d =
     map_sum id snd (calculate_team_stats_against_tier self all_matches d
                       MID_TIER_MIN_PPM (Some MID_TIER_MAX_PPM))"

definition calculate_team_goals_against_low ::
  "season_calculator \<Rightarrow> match list \<Rightarrow> date \<Rightarrow> py_error + pyval" where
  "calculate_team_goals_against_low self all_matches d =
     map_sum id fst (calculate_team_stats_against_tier self all_matches d 0 (Some LOW_TIER_MAX_PPM))"

definition calculate_team_points_against_low ::
  "season_calculator \<Rightarrow> match list \<Rightarrow> date \<Rightarrow> py_error + pyval" where
  "calculate_team_points_against_low self all_matches d =
     map_sum id snd (calculate_team_stats_against_tier self all_matches d 0 (Some LOW_TIER_MAX_PPM))"

section \<open>StatsCalculator (rm\_team/stats\_calculator.py, rm\_team/utils.py)\<close>

text \<open>
  \<open>check_NaN_column_in_RM_matches\<close> is true when none of the columns it inspects holds
  NaN in the frame. Rows with a missing date never reach it: they fail every date
  comparison of the filters before.
\<close>

definition check_NaN_column_in_RM_matches :: "match list \<Rightarrow> bool" where
  "check_NaN_column_in_RM_matches dataframe =
     list_all (\<lambda>m. home_goals m \<noteq> None \<and> away_goals m \<noteq> None \<and> \<not> other_checked_nan m) dataframe"

record stats_calculator =
  st_rm_matches :: "match list"
  st_opp_matches :: "match list"
  st_season_manager :: "season list"

text \<open>
  The dictionary of the five rolling averages; its keys carry the prefix \<open>RM_\<close> in the
  focal branch and \<open>OP_\<close> in the opponent branch. The other results are \<open>False\<close> and
  \<open>np.nan\<close>.
\<close>

record l5_stats =
  G_SCO_L5 :: rat
  G_CON_L5 :: rat
  GDIF_L5 :: rat
  PPM_L5 :: rat
  OPP_PPM_L5 :: rat

datatype last5 = L5_False | L5_NaN | L5_Dict l5_stats

definition calculate_real_madrid_last_5 :: "stats_calculator \<Rightarrow> date \<Rightarrow> nat \<Rightarrow> last5" where
  "calculate_real_madrid_last_5 self d matches_count =
     (let filtered_matches = filter (\<lambda>m. match_date m < d) (st_rm_matches self);
          sorted_matches = sort_desc filtered_matches;
          last_matches = take matches_count sorted_matches
      in if length last_matches = 0 then L5_False
         else if \<not> check_NaN_column_in_RM_matches last_matches then L5_False
         else
           (let cnt = length last_matches;
                rm_goals = (sum_skipna (map goals last_matches) :: int);
                rm_conceded_goals =
                  (sum_skipna (map away_goals (filter (\<lambda>m. home_team_id m = 1) last_matches)) :: int)
                  + sum_skipna (map home_goals (filter (\<lambda>m. away_team_id m = 1) last_matches));
                rm_difference = rm_goals - rm_conceded_goals;
                rm_points = real_result_points last_matches;
                rm_opp_ppm =
                  (sum_skipna (map PPM_A (filter (\<lambda>m. home_team_id m = 1) last_matches)) :: rat)
                  + sum_skipna (map PPM_H (filter (\<lambda>m. away_team_id m = 1) last_matches))
            in L5_Dict \<lparr>G_SCO_L5 = of_int rm_goals / of_nat cnt,
                        G_CON_L5 = of_int rm_conceded_goals / of_nat cnt,
                        GDIF_L5 = of_int rm_difference / of_nat cnt,
                        PPM_L5 = of_int rm_points / of_nat cnt,
                        OPP_PPM_L5 = rm_opp_ppm / of_nat cnt\<rparr>))"

definition calculate_opponent_last_5 :: "stats_calculator \<Rightarrow> date \<Rightarrow> int \<Rightarrow> nat \<Rightarrow> last5" where
  "calculate_opponent_last_5 self d tid matches_count =
     (let filtered_matches =
            filter (\<lambda>m. match_date m < d \<and> (home_team_id m = tid \<or> away_team_id m = tid))
              (st_opp_matches self);
          sorted_matches = sort_desc filtered_matches;
          last_matches = take matches_count sorted_matches
      in if length last_matches = 0 then L5_NaN
         else if \<not> check_NaN_column_in_RM_matches last_matches then L5_NaN
         else
           (let cnt = length last_matches;
                opp_goals =
                  (sum_skipna (map home_goals (filter (\<lambda>m. home_team_id m = tid) last_matches)) :: int)
                  + sum_skipna (map away_goals (filter (\<lambda>m. away_team_id m = tid) last_matches));
                opp_conceded_goals =
                  (sum_skipna (map away_goals (filter (\<lambda>m. home_team_id m = tid) last_matches)) :: int)
                  + sum_skipna (map home_goals (filter (\<lambda>m. away_team_id m = tid) last_matches));
                opp_difference = opp_goals - opp_conceded_goals;
                home_wins = length (filter (\<lambda>m. home_team_id m = tid
                                              \<and> nan_gt (home_goals m) (away_goals m)) last_matches);
                away_wins = length (filter (\<lambda>m. away_team_id m = tid
                                              \<and> nan_gt (away_goals m) (home_goals m)) last_matches);
                draws = length (filter (\<lambda>m. nan_eq (home_goals m) (away_goals m)) last_matches);
                opp_points = (int home_wins + int away_wins) * WIN_POINTS + int draws * DRAW_POINTS;
                opp_opp_ppm =
                  (sum_skipna (map PPM_A (filter (\<lambda>m. home_team_id m = tid) last_matches)) :: rat)
                  + sum_skipna (map PPM_H (filter (\<lambda>m. away_team_id m = tid) last_matches))
            in L5_Dict \<lparr>G_SCO_L5 = of_int opp_goals / of_nat cnt,
                        G_CON_L5 = of_int opp_conceded_goals / of_nat cnt,
                        GDIF_L5 = of_int opp_difference / of_nat cnt,
                        PPM_L5 = of_int opp_points / of_nat cnt,
                        OPP_PPM_L5 = opp_opp_ppm / of_nat cnt\<rparr>))"

definition calculate_last_5_stats :: "stats_calculator \<Rightarrow> date \<Rightarrow> int \<Rightarrow> nat \<Rightarrow> last5" where
  "calculate_last_5_stats self d tid matches_count =
     (if tid = 1 then calculate_real_madrid_last_5 self d matches_count
      else calculate_opponent_last_5 self d tid matches_count)"

section \<open>Opponent wrappers (opp\_team/stats\_functions.py)\<close>

text \<open>
  \<open>if result:\<close> tests Python truthiness: \<open>False\<close> is false, a non-empty dictionary is
  true, and the float \<open>np.nan\<close> is true as well (only the float 0.0 is false).
  \<open>result['key']\<close> on a float or a bool raises \<open>TypeError\<close>.
\<close>

fun truthy :: "last5 \<Rightarrow> bool" where
  "truthy L5_False = False"
| "truthy L5_NaN = True"
| "truthy (L5_Dict r) = True"

fun subscript :: "last5 \<Rightarrow> (l5_stats \<Rightarrow> rat) \<Rightarrow> py_error + pyval" where
  "subscript (L5_Dict r) key = Inr (PyNum (key r))"
| "subscript L5_NaN key = Inl TypeError"
| "subscript L5_False key = Inl TypeError"

definition calculate_OP_G_SCO_L5 :: "stats_calculator \<Rightarrow> date \<Rightarrow> int \<Rightarrow> py_error + pyval" where
  "calculate_OP_G_SCO_L5 stats d tid =
     (let result = calculate_opponent_last_5 stats d tid 5
      in if truthy result then subscript result G_SCO_L5 else Inr PyNaN)"

definition calculate_OP_G_CON_L5 :: "stats_calculator \<Rightarrow> date \<Rightarrow> int \<Rightarrow> py_error + pyval" where
  "calculate_OP_G_CON_L5 stats d tid =
     (let result = calculate_opponent_last_5 stats d tid 5
      in if truthy result then subscript result G_CON_L5 else Inr PyNaN)"

definition calculate_OP_GDIF_L5 :: "stats_calculator \<Rightarrow> date \<Rightarrow> int \<Rightarrow> py_error + pyval" where
  "calculate_OP_GDIF_L5 stats d tid =
     (let result = calculate_opponent_last_5 stats d tid 5
      in if truthy result then subscript result GDIF_L5 else Inr PyNaN)"

definition calculate_OP_OPP_POS_L5 :: "stats_calculator \<Rightarrow> date \<Rightarrow> int \<Rightarrow> py_error + pyval" where
  "calculate_OP_OPP_POS_L5 stats d tid =
     (let result = calculate_opponent_last_5 stats d tid 5
      in if truthy result then subscript result OPP_PPM_L5 else Inr PyNaN)"

definition calculate_OP_PPM_L5 :: "stats_calculator \<Rightarrow> date \<Rightarrow> int \<Rightarrow> py_error + pyval" where
  "calculate_OP_PPM_L5 stats d tid =
     (let result = calculate_opponent_last_5 stats d tid 5
      in if truthy result then subscript result PPM_L5 else Inr PyNaN)"

section \<open>Head-to-head calculator (rm\_h2h/h2h\_calculator.py)\<close>

text \<open>
  \<open>validate_h2h_dataframe\<close> only tests that the five required columns exist, which the
  row type guarantees, so it is true here. \<open>if last_n:\<close> is false for \<open>None\<close> and 0.
\<close>

definition get_h2h_matches :: "match list \<Rightarrow> int \<Rightarrow> date \<Rightarrow> nat option \<Rightarrow> match list option" where
  "get_h2h_matches df opp_id d last_n =
     (let h2h_matches =
            filter (\<lambda>m. match_date m < d
                       \<and> ((home_team_id m = REAL_MADRID_ID \<and> away_team_id m = opp_id)
                          \<or> (home_team_id m = opp_id \<and> away_team_id m = REAL_MADRID_ID))) df
      in if h2h_matches = [] then None
         else
           (let sorted = sort_desc h2h_matches
            in (case last_n of
                  None \<Rightarrow> Some sorted
                | Some n \<Rightarrow> if n = 0 then Some sorted else Some (take n sorted))))"

record h2h_stats =
  win_ratio :: rat
  points_per_match :: rat
  goals_balance :: int

definition h2h_points :: "match list \<Rightarrow> int" where
  "h2h_points h2h_matches =
     (let rm_home_wins = length (filter (\<lambda>m. home_team_id m = REAL_MADRID_ID
                                           \<and> nan_gt (home_goals m) (away_goals m)) h2h_matches);
          rm_away_wins = length (filter (\<lambda>m. away_team_id m = REAL_MADRID_ID
                                           \<and> nan_gt (away_goals m) (home_goals m)) h2h_matches);
          draws = length (filter (\<lambda>m. nan_eq (home_goals m) (away_goals m)) h2h_matches);
          total_wins = int rm_home_wins + int rm_away_wins
      in total_wins * WIN_POINTS + int draws * DRAW_POINTS)"

definition calculate_h2h_stats :: "match list \<Rightarrow> int \<Rightarrow> date \<Rightarrow> nat option \<Rightarrow> h2h_stats option" where
  "calculate_h2h_stats df opp_id d last_n =
     (case get_h2h_matches df opp_id d last_n of
        None \<Rightarrow> None
      | Some h2h_matches \<Rightarrow>
          if h2h_matches = [] then None
          else
            (let rm_home_wins = length (filter (\<lambda>m. home_team_id m = REAL_MADRID_ID
                                                  \<and> nan_gt (home_goals m) (away_goals m)) h2h_matches);
                 rm_away_wins = length (filter (\<lambda>m. away_team_id m = REAL_MADRID_ID
                                                  \<and> nan_gt (away_goals m) (home_goals m)) h2h_matches);
                 total_matches = length h2h_matches;
                 total_wins = int rm_home_wins + int rm_away_wins;
                 rm_goals =
                   (sum_skipna (map home_goals
                      (filter (\<lambda>m. home_team_id m = REAL_MADRID_ID) h2h_matches)) :: int)
                   + sum_skipna (map away_goals
                      (filter (\<lambda>m. away_team_id m = REAL_MADRID_ID) h2h_matches));
                 opp_goals =
                   (sum_skipna (map away_goals
                      (filter (\<lambda>m. home_team_id m = REAL_MADRID_ID) h2h_matches)) :: int)
                   + sum_skipna (map home_goals
                      (filter (\<lambda>m. away_team_id m = REAL_MADRID_ID) h2h_matches))
             in Some \<lparr>win_ratio = of_int total_wins / of_nat total_matches,
                      points_per_match = of_int (h2h_points h2h_matches) / of_nat total_matches,
                      goals_balance = rm_goals - opp_goals\<rparr>))"

definition calculate_h2h_overall_ppm :: "match list \<Rightarrow> int \<Rightarrow> date \<Rightarrow> rat option" where
  "calculate_h2h_overall_ppm df opp_id d =
     (case get_h2h_matches df opp_id d None of
        None \<Rightarrow> None
      | Some h2h_matches \<Rightarrow>
          if h2h_matches = [] then None
          else Some (of_int (h2h_points h2h_matches) / of_nat (length h2h_matches)))"

definition is_playing_before :: "match list \<Rightarrow> date \<Rightarrow> int \<Rightarrow> bool" where
  "is_playing_before df d tid =
     (case get_h2h_matches df tid d None of
        None \<Rightarrow> False
      | Some h2h_matches \<Rightarrow> if h2h_matches = [] then False else True)"

section \<open>Per-match quantities and example rows used in the statements\<close>

text \<open>
  The points one match gives the queried team in the season statistics: for the focal
  team from \<open>real_result\<close>, for any other team from the goals of the side it played on
  (3 for a win, 1 for a draw, 0 otherwise).
\<close>

definition season_points_of :: "int \<Rightarrow> match \<Rightarrow> int" where
  "season_points_of tid m =
     (if tid = 1 then
        (if real_result m = Some 1 then 3 else if real_result m = Some (1 / 2) then 1 else 0)
      else
        (if home_team_id m = tid
         then (if nan_gt (home_goals m) (away_goals m) then 3
               else if nan_eq (home_goals m) (away_goals m) then 1 else 0) else 0)
        + (if away_team_id m = tid
           then (if nan_gt (away_goals m) (home_goals m) then 3
                 else if nan_eq (away_goals m) (home_goals m) then 1 else 0) else 0))"

text \<open>The table a season calculator reads its team's matches from.\<close>

definition team_table :: "season_calculator \<Rightarrow> match list \<Rightarrow> match list" where
  "team_table self all_matches =
     (if sc_team_id self = 1 then sc_rm_matches self
      else filter (\<lambda>m. home_team_id m = sc_team_id self \<or> away_team_id m = sc_team_id self) all_matches)"

text \<open>
  A complete row without NaN: date, home and away team, home and away goals, home and
  away PPM. The focal team's derived columns \<open>goals\<close> and \<open>real_result\<close> are filled
  in the way the loader derives them from the score.
\<close>

definition row :: "date \<Rightarrow> int \<Rightarrow> int \<Rightarrow> int \<Rightarrow> int \<Rightarrow> rat \<Rightarrow> rat \<Rightarrow> match" where
  "row d h a hg ag ph pa =
     \<lparr>match_date = d, home_team_id = h, away_team_id = a,
      home_goals = Some hg, away_goals = Some ag, PPM_H = Some ph, PPM_A = Some pa,
      goals = Some (if h = 1 then hg else ag),
      real_result = Some (if h = 1 then (if ag < hg then 1 else if hg = ag then 1 / 2 else 0)
                          else (if hg < ag then 1 else if hg = ag then 1 / 2 else 0)),
      other_checked_nan = False\<rparr>"

text \<open>A meeting of the focal team (id 1) with team 2, the focal team at home or away.\<close>

definition meeting :: "bool \<Rightarrow> date \<Rightarrow> int \<Rightarrow> int \<Rightarrow> match" where
  "meeting rm_home d rm_goals opp_goals =
     (if rm_home then row d 1 2 rm_goals opp_goals 2 1 else row d 2 1 opp_goals rm_goals 1 2)"

text \<open>
  The matches the rolling form of a team is computed from: the rows of its table dated
  strictly before the date (the focal team reads \<open>rm_matches\<close>, any other team its own
  rows of \<open>opp_matches\<close>).
\<close>

definition prior_matches :: "stats_calculator \<Rightarrow> date \<Rightarrow> int \<Rightarrow> match list" where
  "prior_matches self d tid =
     (if tid = 1 then filter (\<lambda>m. match_date m < d) (st_rm_matches self)
      else filter (\<lambda>m. match_date m < d \<and> (home_team_id m = tid \<or> away_team_id m = tid))
             (st_opp_matches self))"

text \<open>
  What one match contributes to the five rolling sums, seen from the team: goals scored,
  goals conceded, points, and the PPM of the side it played against.
\<close>

definition l5_scored :: "int \<Rightarrow> match \<Rightarrow> int" where
  "l5_scored tid m =
     (if tid = 1 then skipna (goals m)
      else (if home_team_id m = tid then skipna (home_goals m) else 0)
           + (if away_team_id m = tid then skipna (away_goals m) else 0))"

definition l5_conceded :: "int \<Rightarrow> match \<Rightarrow> int" where
  "l5_conceded tid m =
     (if home_team_id m = tid then skipna (away_goals m) else 0)
     + (if away_team_id m = tid then skipna (home_goals m) else 0)"

definition l5_points :: "int \<Rightarrow> match \<Rightarrow> int" where
  "l5_points tid m =
     (if tid = 1 then season_points_of 1 m
      else (if home_team_id m = tid \<and> nan_gt (home_goals m) (away_goals m) then 3 else 0)
           + (if away_team_id m = tid \<and> nan_gt (away_goals m) (home_goals m) then 3 else 0)
           + (if nan_eq (home_goals m) (away_goals m) then 1 else 0))"

definition l5_opp_ppm :: "int \<Rightarrow> match \<Rightarrow> rat" where
  "l5_opp_ppm tid m =
     (if home_team_id m = tid then skipna (PPM_A m) else 0)
     + (if away_team_id m = tid then skipna (PPM_H m) else 0)"

text \<open>The arithmetic mean of a per-match quantity over a list of matches.\<close>

definition mean :: "(match \<Rightarrow> rat) \<Rightarrow> match list \<Rightarrow> rat" where
  "mean f ms = (\<Sum>m\<leftarrow>ms. f m) / of_nat (length ms)"

text \<open>The rows of a table dated strictly before a date.\<close>

definition before :: "date \<Rightarrow> match list \<Rightarrow> match list" where
  "before D ms = filter (\<lambda>m. match_date m < D) ms"

section \<open>Properties of the season registry\<close>

lemma index_by_name_None: "index_by_name ss n = None \<longleftrightarrow> n \<notin> name ` set ss"
  by (induction ss) (auto split: option.splits)

lemma index_by_name_Some:
  "index_by_name ss n = Some i \<Longrightarrow>
     i < length ss \<and> name (ss ! i) = n \<and> (\<forall>j<i. name (ss ! j) \<noteq> n)"
proof (induction ss arbitrary: i)
  case Nil
  then show ?case by simp
next
  case (Cons s ss)
  show ?case
  proof (cases "name s = n")
    case True
    with Cons.prems show ?thesis by simp
  next
    case False
    with Cons.prems obtain k where k: "index_by_name ss n = Some k" "i = Suc k"
      by (auto split: option.splits)
    from Cons.IH [OF k(1)] have ih: "k < length ss" "name (ss ! k) = n"
      "\<forall>j<k. name (ss ! j) \<noteq> n" by simp_all
    have "\<forall>j<Suc k. name ((s # ss) ! j) \<noteq> n"
    proof (intro allI impI)
      fix j assume "j < Suc k"
      then show "name ((s # ss) ! j) \<noteq> n"
        using False ih(3) by (cases j) simp_all
    qed
    with ih k show ?thesis by simp
  qed
qed

lemma index_by_name_zero:
  "index_by_name ss n = Some 0 \<longleftrightarrow> ss \<noteq> [] \<and> name (hd ss) = n"
  by (cases ss) (auto split: option.splits)

text \<open>
  Claim C7. \<open>get_previous_season\<close> returns the first-season sentinel exactly when its
  argument carries the name of the earliest season of the list; it returns \<open>None\<close>
  exactly when the argument is absent or its name is not the name of a known season;
  in every other case it returns the season stored immediately before the (first) season
  of that name in the ordered list.
\<close>

theorem get_previous_season_cases:
  "(get_previous_season seasons cur = FirstSeason \<longleftrightarrow>
      (\<exists>s. cur = Some s \<and> seasons \<noteq> [] \<and> name (hd seasons) = name s))
   \<and> (get_previous_season seasons cur = NoSeason \<longleftrightarrow>
      (cur = None \<or> (\<exists>s. cur = Some s \<and> name s \<notin> name ` set seasons)))
   \<and> (\<forall>p. get_previous_season seasons cur = PrevSeason p \<longleftrightarrow>
      (\<exists>s i. cur = Some s \<and> index_by_name seasons (name s) = Some (Suc i)
         \<and> Suc i < length seasons \<and> name (seasons ! Suc i) = name s \<and> p = seasons ! i))"
proof (cases cur)
  case None
  then show ?thesis by (simp add: get_previous_season_def)
next
  case cur: (Some s)
  show ?thesis
  proof (cases "index_by_name seasons (name s)")
    case None
    then have "name s \<notin> name ` set seasons"
      by (simp add: index_by_name_None)
    moreover from None have "index_by_name seasons (name s) \<noteq> Some 0" by simp
    ultimately show ?thesis
      using cur None
      by (simp add: get_previous_season_def index_by_name_zero [symmetric])
  next
    case idx: (Some i)
    note facts = index_by_name_Some [OF idx]
    have known: "name s \<in> name ` set seasons"
      using idx index_by_name_None [of seasons "name s"] by auto
    show ?thesis
    proof (cases i)
      case 0
      with idx cur known show ?thesis
        by (simp add: get_previous_season_def index_by_name_zero [symmetric])
    next
      case (Suc k)
      with idx cur known facts show ?thesis
        by (auto simp add: get_previous_season_def index_by_name_zero [symmetric])
    qed
  qed
qed

section \<open>Evaluation rules\<close>

lemmas cfg_defs = WIN_POINTS_def DRAW_POINTS_def TOP_TIER_MIN_PPM_def MID_TIER_MIN_PPM_def
  MID_TIER_MAX_PPM_def LOW_TIER_MAX_PPM_def REAL_MADRID_ID_def

lemmas pandas_defs = nan_gt_def nan_eq_def gt_const_def ge_const_def le_const_def skipna_def
  sum_skipna_def sort_desc_def

lemmas season_defs = seasons_init_def ymd_def get_previous_season_def

lemmas sc_defs = get_all_opp_matches_def goal_points_def real_result_points_def
  calculate_team_points_per_match_season_def tier_matches_opp_def tier_matches_rm_def
  tier_window_opp_def tier_window_rm_def calculate_team_stats_against_tier_def

lemmas st_defs = check_NaN_column_in_RM_matches_def calculate_real_madrid_last_5_def
  calculate_opponent_last_5_def calculate_last_5_stats_def
  calculate_OP_G_SCO_L5_def calculate_OP_G_CON_L5_def calculate_OP_GDIF_L5_def
  calculate_OP_OPP_POS_L5_def calculate_OP_PPM_L5_def

lemmas h2h_defs = get_h2h_matches_def h2h_points_def calculate_h2h_stats_def
  calculate_h2h_overall_ppm_def is_playing_before_def

section \<open>The head-to-head example\<close>

text \<open>
  Claim C9. The focal team (id 1) met team 2 on 2021-01-01 (won 3-0), on 2021-06-01
  (drew 1-1) and on 2022-01-01 (lost 1-2). Whichever side was at home in each meeting,
  \<open>calculate_h2h_stats\<close> with \<open>last_n = 5\<close> as of 2022-02-01 returns win ratio 1/3,
  points per match 4/3 and goals balance +2.
\<close>

theorem h2h_last5_example:
  "calculate_h2h_stats
     [meeting h1 (ymd 2021 1 1) 3 0, meeting h2 (ymd 2021 6 1) 1 1, meeting h3 (ymd 2022 1 1) 1 2]
     2 (ymd 2022 2 1) (Some 5)
   = Some \<lparr>win_ratio = 1 / 3, points_per_match = 4 / 3, goals_balance = 2\<rparr>"
  by (cases h1; cases h2; cases h3)
     (simp_all add: h2h_defs pandas_defs cfg_defs row_def meeting_def ymd_def Let_def)

section \<open>The opponent wrappers on the absence marker\<close>

text \<open>
  Claim C10 (evaluation of the code). Team 2 has no match before 2021-01-10:
  \<open>_calculate_opponent_last_5\<close> returns \<open>np.nan\<close>, and each of the five wrappers
  then raises \<open>TypeError\<close> instead of returning \<open>np.nan\<close>, because \<open>np.nan\<close> is
  truthy and is subscripted.
\<close>

theorem OP_wrappers_raise_on_nan:
  "calculate_opponent_last_5
       \<lparr>st_rm_matches = [], st_opp_matches = [], st_season_manager = seasons_init\<rparr>
       (ymd 2021 1 10) 2 5 = L5_NaN
   \<and> calculate_OP_G_SCO_L5
       \<lparr>st_rm_matches = [], st_opp_matches = [], st_season_manager = seasons_init\<rparr>
       (ymd 2021 1 10) 2 = Inl TypeError
   \<and> calculate_OP_G_CON_L5
       \<lparr>st_rm_matches = [], st_opp_matches = [], st_season_manager = seasons_init\<rparr>
       (ymd 2021 1 10) 2 = Inl TypeError
   \<and> calculate_OP_GDIF_L5
       \<lparr>st_rm_matches = [], st_opp_matches = [], st_season_manager = seasons_init\<rparr>
       (ymd 2021 1 10) 2 = Inl TypeError
   \<and> calculate_OP_PPM_L5
       \<lparr>st_rm_matches = [], st_opp_matches = [], st_season_manager = seasons_init\<rparr>
       (ymd 2021 1 10) 2 = Inl TypeError
   \<and> calculate_OP_OPP_POS_L5
       \<lparr>st_rm_matches = [], st_opp_matches = [], st_season_manager = seasons_init\<rparr>
       (ymd 2021 1 10) 2 = Inl TypeError"
  by (simp add: st_defs pandas_defs Let_def)

section \<open>Tier membership\<close>

text \<open>
  Claim C2 (evaluation of the code). As of 2021-01-10 the focal team has one match in
  the window, at home on 2020-02-01 against team 5, won 2-0; its own PPM is 2.5 and the
  opponent's PPM is 1.0. The TOP query counts the match (it returns 2 goals and 3 points
  per match), although the opponent's PPM is below 1.9: the focal branch tests the PPM
  of either side. And for team 2, whose only match in the window is against an opponent
  of PPM exactly 1.9, the TOP query finds no match: the lower bound is strict.
\<close>

theorem tier_top_membership_eval:
  "calculate_team_stats_against_tier
      \<lparr>sc_rm_matches = [row (ymd 2020 2 1) 1 5 2 0 (5 / 2) 1],
       sc_season_manager = seasons_init, sc_team_id = 1\<rparr>
      [] (ymd 2021 1 10) TOP_TIER_MIN_PPM None = Inr (PyNum 2, PyNum 3)
   \<and> calculate_team_stats_against_tier
      \<lparr>sc_rm_matches = [], sc_season_manager = seasons_init, sc_team_id = 2\<rparr>
      [row (ymd 2020 2 1) 2 7 1 0 1 (19 / 10)] (ymd 2021 1 10) TOP_TIER_MIN_PPM None
     = Inr (PyNaN, PyNaN)"
  by (simp add: sc_defs season_defs cfg_defs pandas_defs row_def Let_def)

text \<open>
  Claim C3 (evaluation of the code). As of 2021-01-10 team 2 has exactly one match in its
  window, at home on 2020-02-01 against an opponent of PPM exactly 1.2. The MID filter
  and the LOW filter both keep it, so the three tier counts add up to 2 while the window
  holds 1 match; both the MID and the LOW statistics are computed from it.
\<close>

theorem tier_counts_overlap_eval:
  "tier_window_opp (get_previous_season seasons_init (get_season seasons_init (ymd 2021 1 10)))
       (ymd 2021 1 10) [row (ymd 2020 2 1) 2 7 1 0 1 (12 / 10)]
     = Inr [row (ymd 2020 2 1) 2 7 1 0 1 (12 / 10)]
   \<and> length (tier_matches_opp 2 TOP_TIER_MIN_PPM None [row (ymd 2020 2 1) 2 7 1 0 1 (12 / 10)])
     + length (tier_matches_opp 2 MID_TIER_MIN_PPM (Some MID_TIER_MAX_PPM)
                 [row (ymd 2020 2 1) 2 7 1 0 1 (12 / 10)])
     + length (tier_matches_opp 2 0 (Some LOW_TIER_MAX_PPM)
                 [row (ymd 2020 2 1) 2 7 1 0 1 (12 / 10)]) = 2
   \<and> calculate_team_stats_against_tier
        \<lparr>sc_rm_matches = [], sc_season_manager = seasons_init, sc_team_id = 2\<rparr>
        [row (ymd 2020 2 1) 2 7 1 0 1 (12 / 10)] (ymd 2021 1 10)
        MID_TIER_MIN_PPM (Some MID_TIER_MAX_PPM) = Inr (PyNum 1, PyNum 3)
   \<and> calculate_team_stats_against_tier
        \<lparr>sc_rm_matches = [], sc_season_manager = seasons_init, sc_team_id = 2\<rparr>
        [row (ymd 2020 2 1) 2 7 1 0 1 (12 / 10)] (ymd 2021 1 10)
        0 (Some LOW_TIER_MAX_PPM) = Inr (PyNum 1, PyNum 3)"
  by (simp add: sc_defs season_defs cfg_defs pandas_defs row_def Let_def)

section \<open>Season points per match\<close>

lemma goal_points_sum:
  "tid \<noteq> 1 \<Longrightarrow> goal_points tid ms = (\<Sum>m\<leftarrow>ms. season_points_of tid m)"
  by (induction ms)
     (auto simp: goal_points_def season_points_of_def Let_def WIN_POINTS_def DRAW_POINTS_def
        nan_gt_def nan_eq_def split: option.splits)

lemma real_result_points_sum:
  "real_result_points ms = (\<Sum>m\<leftarrow>ms. season_points_of 1 m)"
  by (induction ms)
     (auto simp: real_result_points_def season_points_of_def WIN_POINTS_def DRAW_POINTS_def)

lemma get_all_opp_matches_Some:
  "filter (\<lambda>m. home_team_id m = tid \<or> away_team_id m = tid) all_matches \<noteq> [] \<Longrightarrow>
     get_all_opp_matches all_matches tid
       = Some (filter (\<lambda>m. home_team_id m = tid \<or> away_team_id m = tid) all_matches)"
  by (simp add: get_all_opp_matches_def Let_def)

lemma get_all_opp_matches_None:
  "filter (\<lambda>m. home_team_id m = tid \<or> away_team_id m = tid) all_matches = [] \<Longrightarrow>
     get_all_opp_matches all_matches tid = None"
  by (simp add: get_all_opp_matches_def Let_def)

lemma filter_nonempty_outer: "filter P (filter Q xs) \<noteq> [] \<Longrightarrow> filter Q xs \<noteq> []"
  by (cases "filter Q xs") simp_all

text \<open>
  Claim C4, as stated, fails: with no match in the previous season, a match of the
  current season (2020-09-20, before the date 2020-10-01) decides the result. The two
  tables below hold the same (empty) set of matches inside the previous season's date
  range, yet the results are 3 and \<open>np.nan\<close>.
\<close>

theorem season_ppm_current_season_counterexample:
  "get_previous_season seasons_init (get_season seasons_init (ymd 2020 10 1))
     = PrevSeason \<lparr>name = ''2019-2020'', start_date = ymd 2019 8 16, end_date = ymd 2020 7 19\<rparr>
   \<and> filter (\<lambda>m. ymd 2019 8 16 \<le> match_date m \<and> match_date m \<le> ymd 2020 7 19
                 \<and> match_date m < ymd 2020 10 1) [row (ymd 2020 9 20) 1 5 2 0 2 1] = []
   \<and> calculate_team_points_per_match_season
        \<lparr>sc_rm_matches = [row (ymd 2020 9 20) 1 5 2 0 2 1],
         sc_season_manager = seasons_init, sc_team_id = 1\<rparr> [] (ymd 2020 10 1) = Inr (PyNum 3)
   \<and> calculate_team_points_per_match_season
        \<lparr>sc_rm_matches = [], sc_season_manager = seasons_init, sc_team_id = 1\<rparr>
        [] (ymd 2020 10 1) = Inr PyNaN"
  by (simp add: sc_defs season_defs cfg_defs pandas_defs row_def Let_def)

text \<open>
  Claim C4, amended. When the date has a previous season \<open>p\<close>, the season PPM is the mean
  of the points over exactly the team's matches dated from the start of \<open>p\<close> (inclusive)
  up to the date (exclusive), whenever there is such a match; the end of \<open>p\<close> plays no
  part, so matches of the current season before the date are averaged as well.
\<close>

theorem season_ppm_window:
  assumes prev: "get_previous_season (sc_season_manager self)
                   (get_season (sc_season_manager self) d) = PrevSeason p"
      and ne: "filter (\<lambda>m. start_date p \<le> match_date m \<and> match_date m < d)
                 (team_table self all_matches) \<noteq> []"
  shows "calculate_team_points_per_match_season self all_matches d =
           Inr (PyNum (of_int (\<Sum>m\<leftarrow>filter (\<lambda>m. start_date p \<le> match_date m \<and> match_date m < d)
                                      (team_table self all_matches).
                                 season_points_of (sc_team_id self) m)
                       / of_nat (length (filter (\<lambda>m. start_date p \<le> match_date m \<and> match_date m < d)
                                           (team_table self all_matches)))))"
proof (cases "sc_team_id self = 1")
  case True
  with prev ne show ?thesis
    by (simp add: calculate_team_points_per_match_season_def team_table_def Let_def
          real_result_points_sum)
next
  case False
  from ne False have ne': "filter (\<lambda>m. start_date p \<le> match_date m \<and> match_date m < d)
      (filter (\<lambda>m. home_team_id m = sc_team_id self \<or> away_team_id m = sc_team_id self)
         all_matches) \<noteq> []"
    by (simp add: team_table_def)
  have tt: "team_table self all_matches
      = filter (\<lambda>m. home_team_id m = sc_team_id self \<or> away_team_id m = sc_team_id self)
          all_matches"
    using False by (simp add: team_table_def)
  note known = get_all_opp_matches_Some [OF filter_nonempty_outer [OF ne']]
  show ?thesis
    unfolding calculate_team_points_per_match_season_def Let_def tt
    using False prev ne' by (simp only: known if_True option.case prev_season.case
        goal_points_sum [OF False] list.size length_0_conv if_False simp_thms)
qed

theorem season_ppm_window_witness:
  "get_previous_season seasons_init (get_season seasons_init (ymd 2020 10 1))
     = PrevSeason \<lparr>name = ''2019-2020'', start_date = ymd 2019 8 16, end_date = ymd 2020 7 19\<rparr>
   \<and> calculate_team_points_per_match_season
        \<lparr>sc_rm_matches = [row (ymd 2020 2 1) 1 5 2 0 2 1, row (ymd 2020 9 20) 6 1 1 1 1 2],
         sc_season_manager = seasons_init, sc_team_id = 1\<rparr> [] (ymd 2020 10 1) = Inr (PyNum 2)"
proof -
  let ?self = "\<lparr>sc_rm_matches = [row (ymd 2020 2 1) 1 5 2 0 2 1, row (ymd 2020 9 20) 6 1 1 1 1 2],
         sc_season_manager = seasons_init, sc_team_id = 1\<rparr>"
  let ?p = "\<lparr>name = ''2019-2020'', start_date = ymd 2019 8 16, end_date = ymd 2020 7 19\<rparr>"
  have h1: "get_previous_season (sc_season_manager ?self)
              (get_season (sc_season_manager ?self) (ymd 2020 10 1)) = PrevSeason ?p"
    by (simp add: season_defs)
  have h2: "filter (\<lambda>m. start_date ?p \<le> match_date m \<and> match_date m < ymd 2020 10 1)
              (team_table ?self []) \<noteq> []"
    by (simp add: team_table_def row_def ymd_def)
  from season_ppm_window [OF h1 h2] h1 show ?thesis
    by (simp add: team_table_def row_def ymd_def season_points_of_def)
qed

section \<open>First season and failed season lookup\<close>

lemma get_season_mem: "get_season ss d = Some s \<Longrightarrow> s \<in> set ss"
  by (induction ss) (auto split: if_splits)

lemma previous_of_found_season:
  "get_season ss d = Some s \<Longrightarrow> get_previous_season ss (Some s) \<noteq> NoSeason"
proof -
  assume "get_season ss d = Some s"
  then have "name s \<in> name ` set ss" using get_season_mem by blast
  then have "index_by_name ss (name s) \<noteq> None" by (simp add: index_by_name_None)
  then show ?thesis by (auto simp: get_previous_season_def split: if_splits)
qed

lemma first_season_result:
  assumes "sc_season_manager self = s0 # rest" and "start_date s0 \<le> d" and "d \<le> end_date s0"
  shows "calculate_team_points_per_match_season self all_matches d =
           (if sc_team_id self \<noteq> 1
               \<and> filter (\<lambda>m. home_team_id m = sc_team_id self \<or> away_team_id m = sc_team_id self)
                    all_matches = []
            then Inr PyNone else Inr (PyNum 0))"
proof -
  have prev: "get_previous_season (sc_season_manager self)
                (get_season (sc_season_manager self) d) = FirstSeason"
    using assms by (simp add: get_previous_season_def)
  show ?thesis
    unfolding calculate_team_points_per_match_season_def Let_def prev
    by (simp add: get_all_opp_matches_def Let_def)
qed

text \<open>
  Claim C5. The season PPM is computed for the teams of a match: the focal team, or an
  opponent whose id is read off a match row, so that the all-matches table holds at
  least one row of it. For every such team and every date inside the earliest season of
  the list, \<open>calculate_team_points_per_match_season\<close> returns exactly the number 0, in
  the focal branch and in the other-team branch alike, and not an absence marker.
\<close>

theorem first_season_zero_fill:
  assumes "sc_season_manager self = s0 # rest" and "start_date s0 \<le> d" and "d \<le> end_date s0"
    and team_row: "sc_team_id self = 1
       \<or> (\<exists>m \<in> set all_matches. home_team_id m = sc_team_id self \<or> away_team_id m = sc_team_id self)"
  shows "calculate_team_points_per_match_season self all_matches d = Inr (PyNum 0)"
proof -
  have "sc_team_id self = 1
      \<or> filter (\<lambda>m. home_team_id m = sc_team_id self \<or> away_team_id m = sc_team_id self)
           all_matches \<noteq> []"
    using team_row by (auto simp: filter_empty_conv)
  with first_season_result [OF assms(1) assms(2) assms(3), of all_matches]
  show ?thesis by auto
qed

theorem first_season_zero_fill_witness:
  "calculate_team_points_per_match_season
      \<lparr>sc_rm_matches = [row (ymd 2019 8 20) 1 5 2 0 2 1],
       sc_season_manager = seasons_init, sc_team_id = 1\<rparr> [] (ymd 2019 9 1) = Inr (PyNum 0)
   \<and> calculate_team_points_per_match_season
      \<lparr>sc_rm_matches = [], sc_season_manager = seasons_init, sc_team_id = 2\<rparr>
      [row (ymd 2019 9 1) 1 2 3 1 2 1] (ymd 2019 9 1) = Inr (PyNum 0)"
proof -
  let ?s0 = "\<lparr>name = ''2019-2020'', start_date = ymd 2019 8 16, end_date = ymd 2020 7 19\<rparr>"
  let ?a = "\<lparr>sc_rm_matches = [row (ymd 2019 8 20) 1 5 2 0 2 1],
       sc_season_manager = seasons_init, sc_team_id = 1\<rparr>"
  let ?b = "\<lparr>sc_rm_matches = [], sc_season_manager = seasons_init, sc_team_id = 2\<rparr>"
  have sa: "sc_season_manager ?a = ?s0 # tl seasons_init" by (simp add: seasons_init_def)
  have sb: "sc_season_manager ?b = ?s0 # tl seasons_init" by (simp add: seasons_init_def)
  have lo: "start_date ?s0 \<le> ymd 2019 9 1" and hi: "ymd 2019 9 1 \<le> end_date ?s0"
    by (simp_all add: ymd_def)
  have ra: "sc_team_id ?a = 1
      \<or> (\<exists>m \<in> set []. home_team_id m = sc_team_id ?a \<or> away_team_id m = sc_team_id ?a)"
    by simp
  have rb: "sc_team_id ?b = 1
      \<or> (\<exists>m \<in> set [row (ymd 2019 9 1) 1 2 3 1 2 1].
            home_team_id m = sc_team_id ?b \<or> away_team_id m = sc_team_id ?b)"
    by (simp add: row_def)
  from first_season_zero_fill [OF sa lo hi ra] first_season_zero_fill [OF sb lo hi rb]
  show ?thesis by simp
qed

text \<open>
  Claim C6, as stated, fails when the season lookup fails. 2020-08-01 lies between two
  seasons: for the focal team the result is the number 0, not an absence marker, and for
  another team (with rows in the table) the call raises \<open>TypeError\<close>.
\<close>

theorem season_ppm_lookup_failure_counterexample:
  "get_season seasons_init (ymd 2020 8 1) = None
   \<and> calculate_team_points_per_match_season
        \<lparr>sc_rm_matches = [row (ymd 2020 2 1) 1 5 2 0 2 1],
         sc_season_manager = seasons_init, sc_team_id = 1\<rparr> [] (ymd 2020 8 1) = Inr (PyNum 0)
   \<and> calculate_team_points_per_match_season
        \<lparr>sc_rm_matches = [], sc_season_manager = seasons_init, sc_team_id = 2\<rparr>
        [row (ymd 2020 2 1) 2 7 1 0 1 1] (ymd 2020 8 1) = Inl TypeError"
  by (simp add: sc_defs season_defs row_def Let_def)

text \<open>
  Claim C6, amended. For the focal team the season PPM always returns a value, and that
  value is the number 0 when the season lookup for the date fails. For any other team it
  returns a value whenever the date lies in a known season. In both branches, when the
  date has a previous season and the window from its start to the date holds none of the
  team's matches, the result is an absence marker: \<open>np.nan\<close>, or \<open>None\<close> for another
  team without any row.
\<close>

theorem season_ppm_returns:
  "(sc_team_id self = 1 \<longrightarrow>
      (\<exists>v. calculate_team_points_per_match_season self all_matches d = Inr v))
   \<and> (sc_team_id self = 1 \<and> get_season (sc_season_manager self) d = None \<longrightarrow>
      calculate_team_points_per_match_season self all_matches d = Inr (PyNum 0))
   \<and> (sc_team_id self \<noteq> 1 \<and> get_season (sc_season_manager self) d \<noteq> None \<longrightarrow>
      (\<exists>v. calculate_team_points_per_match_season self all_matches d = Inr v))
   \<and> (\<forall>p. get_previous_season (sc_season_manager self) (get_season (sc_season_manager self) d)
             = PrevSeason p
          \<and> filter (\<lambda>m. start_date p \<le> match_date m \<and> match_date m < d)
               (team_table self all_matches) = [] \<longrightarrow>
          calculate_team_points_per_match_season self all_matches d =
            (if sc_team_id self \<noteq> 1 \<and> team_table self all_matches = [] then Inr PyNone
             else Inr PyNaN))"
proof (intro conjI allI impI)
  assume "sc_team_id self = 1"
  then show "\<exists>v. calculate_team_points_per_match_season self all_matches d = Inr v"
    by (simp add: calculate_team_points_per_match_season_def Let_def split: prev_season.splits)
next
  assume "sc_team_id self = 1 \<and> get_season (sc_season_manager self) d = None"
  then show "calculate_team_points_per_match_season self all_matches d = Inr (PyNum 0)"
    by (simp add: calculate_team_points_per_match_season_def Let_def get_previous_season_def)
next
  assume a: "sc_team_id self \<noteq> 1 \<and> get_season (sc_season_manager self) d \<noteq> None"
  then obtain s where s: "get_season (sc_season_manager self) d = Some s" by auto
  from previous_of_found_season [OF s] a s
  show "\<exists>v. calculate_team_points_per_match_season self all_matches d = Inr v"
    by (simp add: calculate_team_points_per_match_season_def Let_def
          split: prev_season.splits option.splits)
next
  fix p
  assume a: "get_previous_season (sc_season_manager self) (get_season (sc_season_manager self) d)
             = PrevSeason p
          \<and> filter (\<lambda>m. start_date p \<le> match_date m \<and> match_date m < d)
               (team_table self all_matches) = []"
  then show "calculate_team_points_per_match_season self all_matches d =
            (if sc_team_id self \<noteq> 1 \<and> team_table self all_matches = [] then Inr PyNone
             else Inr PyNaN)"
    by (cases "sc_team_id self = 1")
       (simp_all add: calculate_team_points_per_match_season_def Let_def team_table_def
          get_all_opp_matches_def)
qed

theorem season_ppm_returns_witness:
  "calculate_team_points_per_match_season
        \<lparr>sc_rm_matches = [row (ymd 2020 2 1) 1 5 2 0 2 1],
         sc_season_manager = seasons_init, sc_team_id = 1\<rparr> [] (ymd 2020 8 1) = Inr (PyNum 0)
   \<and> (\<exists>v. calculate_team_points_per_match_season
        \<lparr>sc_rm_matches = [], sc_season_manager = seasons_init, sc_team_id = 2\<rparr>
        [row (ymd 2020 2 1) 2 7 1 0 1 1] (ymd 2020 10 1) = Inr v)
   \<and> calculate_team_points_per_match_season
        \<lparr>sc_rm_matches = [row (ymd 2019 2 1) 1 5 2 0 2 1],
         sc_season_manager = seasons_init, sc_team_id = 1\<rparr> [] (ymd 2020 10 1) = Inr PyNaN"
proof -
  let ?a = "\<lparr>sc_rm_matches = [row (ymd 2020 2 1) 1 5 2 0 2 1],
         sc_season_manager = seasons_init, sc_team_id = 1\<rparr>"
  let ?b = "\<lparr>sc_rm_matches = [], sc_season_manager = seasons_init, sc_team_id = 2\<rparr>"
  let ?c = "\<lparr>sc_rm_matches = [row (ymd 2019 2 1) 1 5 2 0 2 1],
         sc_season_manager = seasons_init, sc_team_id = 1\<rparr>"
  let ?p = "\<lparr>name = ''2019-2020'', start_date = ymd 2019 8 16, end_date = ymd 2020 7 19\<rparr>"
  have ha: "sc_team_id ?a = 1 \<and> get_season (sc_season_manager ?a) (ymd 2020 8 1) = None"
    by (simp add: season_defs)
  have hb: "sc_team_id ?b \<noteq> 1 \<and> get_season (sc_season_manager ?b) (ymd 2020 10 1) \<noteq> None"
    by (simp add: season_defs)
  have hc: "get_previous_season (sc_season_manager ?c)
              (get_season (sc_season_manager ?c) (ymd 2020 10 1)) = PrevSeason ?p
            \<and> filter (\<lambda>m. start_date ?p \<le> match_date m \<and> match_date m < ymd 2020 10 1)
                (team_table ?c []) = []"
    by (simp add: season_defs team_table_def row_def)
  from season_ppm_returns [of ?a "[]" "ymd 2020 8 1"] ha
  have 1: "calculate_team_points_per_match_season ?a [] (ymd 2020 8 1) = Inr (PyNum 0)"
    by blast
  from season_ppm_returns [of ?b "[row (ymd 2020 2 1) 2 7 1 0 1 1]" "ymd 2020 10 1"] hb
  have 2: "\<exists>v. calculate_team_points_per_match_season ?b [row (ymd 2020 2 1) 2 7 1 0 1 1]
                (ymd 2020 10 1) = Inr v"
    by blast
  from season_ppm_returns [of ?c "[]" "ymd 2020 10 1"] hc
  have "calculate_team_points_per_match_season ?c [] (ymd 2020 10 1) =
            (if sc_team_id ?c \<noteq> 1 \<and> team_table ?c [] = [] then Inr PyNone else Inr PyNaN)"
    by blast
  then have 3: "calculate_team_points_per_match_season ?c [] (ymd 2020 10 1) = Inr PyNaN"
    by simp
  from 1 2 3 show ?thesis by blast
qed

section \<open>Rolling form\<close>

lemma count_as_sum: "int (length (filter P xs)) = (\<Sum>m\<leftarrow>xs. if P m then 1 else 0)"
  by (induction xs) simp_all

lemma sum_skipna_filter:
  "sum_skipna (map c (filter P xs)) = (\<Sum>m\<leftarrow>xs. if P m then skipna (c m) else 0)"
  by (induction xs) (simp_all add: sum_skipna_def)

lemma sum_skipna_map: "sum_skipna (map c xs) = (\<Sum>m\<leftarrow>xs. skipna (c m))"
  by (simp add: sum_skipna_def comp_def)

lemma sum_list_insort_key:
  "(\<Sum>m\<leftarrow>insort_key k x xs. f m) = f x + (\<Sum>m\<leftarrow>xs. (f m :: 'a::comm_monoid_add))"
  by (induction xs) (simp_all add: add.left_commute)

lemma sum_list_sort_key:
  "(\<Sum>m\<leftarrow>sort_key k xs. f m) = (\<Sum>m\<leftarrow>xs. (f m :: 'a::comm_monoid_add))"
  by (induction xs) (simp_all add: sum_list_insort_key)

lemma sum_list_sort_desc: "(\<Sum>m\<leftarrow>sort_desc xs. f m) = (\<Sum>m\<leftarrow>xs. (f m :: 'a::comm_monoid_add))"
  by (simp add: sort_desc_def sum_list_sort_key)

lemma length_sort_desc: "length (sort_desc xs) = length xs"
  by (simp add: sort_desc_def)

lemma set_sort_desc: "set (sort_desc xs) = set xs"
  by (simp add: sort_desc_def)

lemma check_NaN_sort_desc:
  "check_NaN_column_in_RM_matches (sort_desc xs) = check_NaN_column_in_RM_matches xs"
  by (simp add: check_NaN_column_in_RM_matches_def list_all_iff set_sort_desc)

lemma take_sort_desc_all: "length xs \<le> n \<Longrightarrow> take n (sort_desc xs) = sort_desc xs"
  by (simp add: length_sort_desc)

lemma of_int_sum_list: "(of_int (\<Sum>m\<leftarrow>xs. f m) :: rat) = (\<Sum>m\<leftarrow>xs. of_int (f m))"
  by (induction xs) simp_all

lemma rm_last5_full:
  assumes ne: "P \<noteq> []" and chk: "check_NaN_column_in_RM_matches P"
    and P: "P = filter (\<lambda>m. match_date m < d) (st_rm_matches self)" and len: "length P \<le> n"
  shows "calculate_real_madrid_last_5 self d n =
     L5_Dict \<lparr>G_SCO_L5 = mean (\<lambda>m. of_int (l5_scored 1 m)) P,
              G_CON_L5 = mean (\<lambda>m. of_int (l5_conceded 1 m)) P,
              GDIF_L5 = mean (\<lambda>m. of_int (l5_scored 1 m - l5_conceded 1 m)) P,
              PPM_L5 = mean (\<lambda>m. of_int (l5_points 1 m)) P,
              OPP_PPM_L5 = mean (l5_opp_ppm 1) P\<rparr>"
proof -
  let ?L = "sort_desc P"
  have L: "take n (sort_desc (filter (\<lambda>m. match_date m < d) (st_rm_matches self))) = ?L"
    using len P by (simp add: take_sort_desc_all)
  have neL: "length ?L \<noteq> 0" using ne by (simp add: length_sort_desc)
  have chkL: "check_NaN_column_in_RM_matches ?L" using chk by (simp add: check_NaN_sort_desc)
  have sco: "(sum_skipna (map goals ?L) :: int) = (\<Sum>m\<leftarrow>P. l5_scored 1 m)"
    by (simp add: sum_skipna_map sum_list_sort_desc l5_scored_def)
  have con: "(sum_skipna (map away_goals (filter (\<lambda>m. home_team_id m = 1) ?L)) :: int)
        + sum_skipna (map home_goals (filter (\<lambda>m. away_team_id m = 1) ?L))
        = (\<Sum>m\<leftarrow>P. l5_conceded 1 m)"
    by (simp add: sum_skipna_filter sum_list_sort_desc l5_conceded_def sum_list_addf)
  have pts: "real_result_points ?L = (\<Sum>m\<leftarrow>P. l5_points 1 m)"
    by (simp add: real_result_points_sum sum_list_sort_desc l5_points_def)
  have ppm: "(sum_skipna (map PPM_A (filter (\<lambda>m. home_team_id m = 1) ?L)) :: rat)
        + sum_skipna (map PPM_H (filter (\<lambda>m. away_team_id m = 1) ?L))
        = (\<Sum>m\<leftarrow>P. l5_opp_ppm 1 m)"
    by (simp add: sum_skipna_filter sum_list_sort_desc l5_opp_ppm_def sum_list_addf)
  have dif: "(\<Sum>m\<leftarrow>P. l5_scored 1 m) - (\<Sum>m\<leftarrow>P. l5_conceded 1 m)
        = (\<Sum>m\<leftarrow>P. l5_scored 1 m - l5_conceded 1 m)"
    by (simp add: sum_list_subtractf)
  show ?thesis
    unfolding calculate_real_madrid_last_5_def Let_def L
    using neL chkL
    by (simp only: if_False if_True simp_thms sco con pts ppm dif
          length_sort_desc mean_def of_int_sum_list)
qed


lemma opp_last5_full:
  assumes ne: "P \<noteq> []" and chk: "check_NaN_column_in_RM_matches P" and tid: "tid \<noteq> 1"
    and P: "P = filter (\<lambda>m. match_date m < d \<and> (home_team_id m = tid \<or> away_team_id m = tid))
                  (st_opp_matches self)"
    and len: "length P \<le> n"
  shows "calculate_opponent_last_5 self d tid n =
     L5_Dict \<lparr>G_SCO_L5 = mean (\<lambda>m. of_int (l5_scored tid m)) P,
              G_CON_L5 = mean (\<lambda>m. of_int (l5_conceded tid m)) P,
              GDIF_L5 = mean (\<lambda>m. of_int (l5_scored tid m - l5_conceded tid m)) P,
              PPM_L5 = mean (\<lambda>m. of_int (l5_points tid m)) P,
              OPP_PPM_L5 = mean (l5_opp_ppm tid) P\<rparr>"
proof -
  let ?L = "sort_desc P"
  have L: "take n (sort_desc (filter (\<lambda>m. match_date m < d
              \<and> (home_team_id m = tid \<or> away_team_id m = tid)) (st_opp_matches self))) = ?L"
    using len P by (simp add: take_sort_desc_all)
  have neL: "length ?L \<noteq> 0" using ne by (simp add: length_sort_desc)
  have chkL: "check_NaN_column_in_RM_matches ?L" using chk by (simp add: check_NaN_sort_desc)
  have sco: "(sum_skipna (map home_goals (filter (\<lambda>m. home_team_id m = tid) ?L)) :: int)
        + sum_skipna (map away_goals (filter (\<lambda>m. away_team_id m = tid) ?L))
        = (\<Sum>m\<leftarrow>P. l5_scored tid m)"
    using tid by (simp add: sum_skipna_filter sum_list_sort_desc l5_scored_def sum_list_addf)
  have con: "(sum_skipna (map away_goals (filter (\<lambda>m. home_team_id m = tid) ?L)) :: int)
        + sum_skipna (map home_goals (filter (\<lambda>m. away_team_id m = tid) ?L))
        = (\<Sum>m\<leftarrow>P. l5_conceded tid m)"
    by (simp add: sum_skipna_filter sum_list_sort_desc l5_conceded_def sum_list_addf)
  have pts: "(int (length (filter (\<lambda>m. home_team_id m = tid
                     \<and> nan_gt (home_goals m) (away_goals m)) ?L))
              + int (length (filter (\<lambda>m. away_team_id m = tid
                     \<and> nan_gt (away_goals m) (home_goals m)) ?L))) * WIN_POINTS
             + int (length (filter (\<lambda>m. nan_eq (home_goals m) (away_goals m)) ?L)) * DRAW_POINTS
        = (\<Sum>m\<leftarrow>P. l5_points tid m)"
  proof -
    have "(\<Sum>m\<leftarrow>P. l5_points tid m)
        = (\<Sum>m\<leftarrow>P. if home_team_id m = tid \<and> nan_gt (home_goals m) (away_goals m) then 1 else 0) * 3
          + (\<Sum>m\<leftarrow>P. if away_team_id m = tid \<and> nan_gt (away_goals m) (home_goals m) then 1 else 0) * 3
          + (\<Sum>m\<leftarrow>P. if nan_eq (home_goals m) (away_goals m) then 1 else (0::int))"
      using tid by (induction P) (simp_all add: l5_points_def)
    then show ?thesis
      by (simp add: count_as_sum sum_list_sort_desc WIN_POINTS_def DRAW_POINTS_def algebra_simps)
  qed
  have ppm: "(sum_skipna (map PPM_A (filter (\<lambda>m. home_team_id m = tid) ?L)) :: rat)
        + sum_skipna (map PPM_H (filter (\<lambda>m. away_team_id m = tid) ?L))
        = (\<Sum>m\<leftarrow>P. l5_opp_ppm tid m)"
    by (simp add: sum_skipna_filter sum_list_sort_desc l5_opp_ppm_def sum_list_addf)
  have dif: "(\<Sum>m\<leftarrow>P. l5_scored tid m) - (\<Sum>m\<leftarrow>P. l5_conceded tid m)
        = (\<Sum>m\<leftarrow>P. l5_scored tid m - l5_conceded tid m)"
    by (simp add: sum_list_subtractf)
  show ?thesis
    unfolding calculate_opponent_last_5_def Let_def L
    using neL chkL
    by (simp only: if_False if_True simp_thms sco con pts ppm dif
          length_sort_desc mean_def of_int_sum_list)
qed

lemma rm_last5_nan:
  assumes ne: "P \<noteq> []" and chk: "\<not> check_NaN_column_in_RM_matches P"
    and P: "P = filter (\<lambda>m. match_date m < d) (st_rm_matches self)" and len: "length P \<le> n"
  shows "calculate_real_madrid_last_5 self d n = L5_False"
proof -
  have L: "take n (sort_desc (filter (\<lambda>m. match_date m < d) (st_rm_matches self))) = sort_desc P"
    using len P by (simp add: take_sort_desc_all)
  show ?thesis
    unfolding calculate_real_madrid_last_5_def Let_def L
    using ne chk by (simp add: length_sort_desc check_NaN_sort_desc)
qed

lemma opp_last5_nan:
  assumes ne: "P \<noteq> []" and chk: "\<not> check_NaN_column_in_RM_matches P"
    and P: "P = filter (\<lambda>m. match_date m < d \<and> (home_team_id m = tid \<or> away_team_id m = tid))
                  (st_opp_matches self)"
    and len: "length P \<le> n"
  shows "calculate_opponent_last_5 self d tid n = L5_NaN"
proof -
  have L: "take n (sort_desc (filter (\<lambda>m. match_date m < d
              \<and> (home_team_id m = tid \<or> away_team_id m = tid)) (st_opp_matches self))) = sort_desc P"
    using len P by (simp add: take_sort_desc_all)
  show ?thesis
    unfolding calculate_opponent_last_5_def Let_def L
    using ne chk by (simp add: length_sort_desc check_NaN_sort_desc)
qed

text \<open>
  Claim C8. When the team has no match strictly before the date, \<open>calculate_last_5_stats\<close>
  returns an absence marker (\<open>False\<close> for the focal team, \<open>np.nan\<close> for any other
  team), never a dictionary. When it has \<open>k\<close> such matches with \<open>1 \<le> k \<le> n\<close>, the
  dictionary it returns holds the means of the per-match quantities over exactly those
  \<open>k\<close> matches; it returns that dictionary when none of the checked columns holds NaN in
  them, and the absence marker otherwise.
\<close>

theorem last_5_absent_or_means:
  "(prior_matches self d tid = [] \<longrightarrow>
      calculate_last_5_stats self d tid n = (if tid = 1 then L5_False else L5_NaN))
   \<and> (prior_matches self d tid \<noteq> [] \<and> length (prior_matches self d tid) \<le> n \<longrightarrow>
      calculate_last_5_stats self d tid n =
        (if check_NaN_column_in_RM_matches (prior_matches self d tid)
         then L5_Dict
               \<lparr>G_SCO_L5 = mean (\<lambda>m. of_int (l5_scored tid m)) (prior_matches self d tid),
                G_CON_L5 = mean (\<lambda>m. of_int (l5_conceded tid m)) (prior_matches self d tid),
                GDIF_L5 = mean (\<lambda>m. of_int (l5_scored tid m - l5_conceded tid m))
                            (prior_matches self d tid),
                PPM_L5 = mean (\<lambda>m. of_int (l5_points tid m)) (prior_matches self d tid),
                OPP_PPM_L5 = mean (l5_opp_ppm tid) (prior_matches self d tid)\<rparr>
         else if tid = 1 then L5_False else L5_NaN))"
proof (intro conjI impI)
  assume "prior_matches self d tid = []"
  then show "calculate_last_5_stats self d tid n = (if tid = 1 then L5_False else L5_NaN)"
    by (cases "tid = 1")
       (simp_all add: calculate_last_5_stats_def calculate_real_madrid_last_5_def
          calculate_opponent_last_5_def prior_matches_def sort_desc_def Let_def)
next
  let ?P = "prior_matches self d tid"
  let ?means = "L5_Dict
               \<lparr>G_SCO_L5 = mean (\<lambda>m. of_int (l5_scored tid m)) ?P,
                G_CON_L5 = mean (\<lambda>m. of_int (l5_conceded tid m)) ?P,
                GDIF_L5 = mean (\<lambda>m. of_int (l5_scored tid m - l5_conceded tid m)) ?P,
                PPM_L5 = mean (\<lambda>m. of_int (l5_points tid m)) ?P,
                OPP_PPM_L5 = mean (l5_opp_ppm tid) ?P\<rparr>"
  assume a: "?P \<noteq> [] \<and> length ?P \<le> n"
  then have ne: "?P \<noteq> []" and len: "length ?P \<le> n" by simp_all
  show "calculate_last_5_stats self d tid n =
        (if check_NaN_column_in_RM_matches ?P then ?means
         else if tid = 1 then L5_False else L5_NaN)"
  proof (cases "tid = 1")
    case True
    have P: "?P = filter (\<lambda>m. match_date m < d) (st_rm_matches self)"
      using True by (simp add: prior_matches_def)
    show ?thesis
    proof (cases "check_NaN_column_in_RM_matches ?P")
      case chk: True
      from rm_last5_full [OF ne chk P len] True chk show ?thesis
        by (simp add: calculate_last_5_stats_def)
    next
      case chk: False
      from rm_last5_nan [OF ne chk P len] True chk show ?thesis
        by (simp add: calculate_last_5_stats_def)
    qed
  next
    case False
    have P: "?P = filter (\<lambda>m. match_date m < d \<and> (home_team_id m = tid \<or> away_team_id m = tid))
            (st_opp_matches self)"
      using False by (simp add: prior_matches_def)
    show ?thesis
    proof (cases "check_NaN_column_in_RM_matches ?P")
      case chk: True
      from opp_last5_full [OF ne chk False P len] False chk show ?thesis
        by (simp add: calculate_last_5_stats_def)
    next
      case chk: False
      from opp_last5_nan [OF ne chk P len] False chk show ?thesis
        by (simp add: calculate_last_5_stats_def)
    qed
  qed
qed

theorem last_5_absent_or_means_witness:
  "calculate_last_5_stats
      \<lparr>st_rm_matches = [], st_opp_matches = [row (ymd 2020 2 1) 2 7 1 0 1 (3 / 2)],
       st_season_manager = seasons_init\<rparr> (ymd 2020 1 1) 2 5 = L5_NaN
   \<and> calculate_last_5_stats
      \<lparr>st_rm_matches = [row (ymd 2020 2 1) 1 7 1 0 2 1], st_opp_matches = [],
       st_season_manager = seasons_init\<rparr> (ymd 2020 1 1) 1 5 = L5_False
   \<and> calculate_last_5_stats
      \<lparr>st_rm_matches = [],
       st_opp_matches = [row (ymd 2020 2 1) 2 7 1 0 1 (3 / 2), row (ymd 2020 2 8) 5 2 2 2 1 2,
                         row (ymd 2020 3 1) 2 8 0 0 1 1],
       st_season_manager = seasons_init\<rparr> (ymd 2020 2 20) 2 5
     = L5_Dict \<lparr>G_SCO_L5 = 3 / 2, G_CON_L5 = 1, GDIF_L5 = 1 / 2, PPM_L5 = 2, OPP_PPM_L5 = 5 / 4\<rparr>"
proof -
  let ?a = "\<lparr>st_rm_matches = [], st_opp_matches = [row (ymd 2020 2 1) 2 7 1 0 1 (3 / 2)],
       st_season_manager = seasons_init\<rparr>"
  let ?b = "\<lparr>st_rm_matches = [row (ymd 2020 2 1) 1 7 1 0 2 1], st_opp_matches = [],
       st_season_manager = seasons_init\<rparr>"
  let ?c = "\<lparr>st_rm_matches = [],
       st_opp_matches = [row (ymd 2020 2 1) 2 7 1 0 1 (3 / 2), row (ymd 2020 2 8) 5 2 2 2 1 2,
                         row (ymd 2020 3 1) 2 8 0 0 1 1],
       st_season_manager = seasons_init\<rparr>"
  have pa: "prior_matches ?a (ymd 2020 1 1) 2 = []"
    by (simp add: prior_matches_def row_def ymd_def)
  have pb: "prior_matches ?b (ymd 2020 1 1) 1 = []"
    by (simp add: prior_matches_def row_def ymd_def)
  have pc: "prior_matches ?c (ymd 2020 2 20) 2
      = [row (ymd 2020 2 1) 2 7 1 0 1 (3 / 2), row (ymd 2020 2 8) 5 2 2 2 1 2]"
    by (simp add: prior_matches_def row_def ymd_def)
  have hc: "prior_matches ?c (ymd 2020 2 20) 2 \<noteq> []
      \<and> length (prior_matches ?c (ymd 2020 2 20) 2) \<le> 5"
    unfolding pc by simp
  have chk: "check_NaN_column_in_RM_matches (prior_matches ?c (ymd 2020 2 20) 2)"
    unfolding pc by (simp add: check_NaN_column_in_RM_matches_def row_def)
  from last_5_absent_or_means [of ?a "ymd 2020 1 1" 2 5] pa
  have 1: "calculate_last_5_stats ?a (ymd 2020 1 1) 2 5 = L5_NaN" by simp
  from last_5_absent_or_means [of ?b "ymd 2020 1 1" 1 5] pb
  have 2: "calculate_last_5_stats ?b (ymd 2020 1 1) 1 5 = L5_False" by simp
  from last_5_absent_or_means [of ?c "ymd 2020 2 20" 2 5] hc chk
  have "calculate_last_5_stats ?c (ymd 2020 2 20) 2 5 =
        L5_Dict \<lparr>G_SCO_L5 = mean (\<lambda>m. of_int (l5_scored 2 m)) (prior_matches ?c (ymd 2020 2 20) 2),
                 G_CON_L5 = mean (\<lambda>m. of_int (l5_conceded 2 m)) (prior_matches ?c (ymd 2020 2 20) 2),
                 GDIF_L5 = mean (\<lambda>m. of_int (l5_scored 2 m - l5_conceded 2 m))
                             (prior_matches ?c (ymd 2020 2 20) 2),
                 PPM_L5 = mean (\<lambda>m. of_int (l5_points 2 m)) (prior_matches ?c (ymd 2020 2 20) 2),
                 OPP_PPM_L5 = mean (l5_opp_ppm 2) (prior_matches ?c (ymd 2020 2 20) 2)\<rparr>"
    by presburger
  then have 3: "calculate_last_5_stats ?c (ymd 2020 2 20) 2 5
     = L5_Dict \<lparr>G_SCO_L5 = 3 / 2, G_CON_L5 = 1, GDIF_L5 = 1 / 2, PPM_L5 = 2, OPP_PPM_L5 = 5 / 4\<rparr>"
    unfolding pc
    by (simp add: mean_def l5_scored_def l5_conceded_def l5_points_def l5_opp_ppm_def row_def
          skipna_def nan_gt_def nan_eq_def)
  from 1 2 3 show ?thesis by simp
qed

section \<open>No look-ahead\<close>

lemma filter_before_cong:
  assumes "before D xs = before D ys" and "\<And>m. P m \<Longrightarrow> match_date m < D"
  shows "filter P xs = filter P ys"
proof -
  have "\<And>zs. filter P (before D zs) = filter P zs"
    using assms(2) by (auto simp: before_def intro: filter_cong)
  then show ?thesis using assms(1) by metis
qed

lemma filter_team_before_cong:
  assumes "before D xs = before D ys" and "\<And>m. P m \<Longrightarrow> match_date m < D"
  shows "filter P (filter Q xs) = filter P (filter Q ys)"
proof -
  have "filter (\<lambda>m. Q m \<and> P m) xs = filter (\<lambda>m. Q m \<and> P m) ys"
    by (rule filter_before_cong [OF assms(1)]) (simp add: assms(2))
  then show ?thesis by simp
qed

lemma last5_rm_past:
  assumes "before D rm = before D rm'" and "d \<le> D"
  shows "calculate_real_madrid_last_5 \<lparr>st_rm_matches = rm, st_opp_matches = opp, st_season_manager = S\<rparr> d n
       = calculate_real_madrid_last_5 \<lparr>st_rm_matches = rm', st_opp_matches = opp', st_season_manager = S\<rparr> d n"
proof -
  have "filter (\<lambda>m. match_date m < d) rm = filter (\<lambda>m. match_date m < d) rm'"
    by (rule filter_before_cong [OF assms(1)]) (use assms(2) in simp)
  then show ?thesis by (simp add: calculate_real_madrid_last_5_def)
qed

lemma last5_opp_past:
  assumes "before D opp = before D opp'" and "d \<le> D"
  shows "calculate_opponent_last_5 \<lparr>st_rm_matches = rm, st_opp_matches = opp, st_season_manager = S\<rparr> d tid n
       = calculate_opponent_last_5 \<lparr>st_rm_matches = rm', st_opp_matches = opp', st_season_manager = S\<rparr> d tid n"
proof -
  have "filter (\<lambda>m. match_date m < d \<and> (home_team_id m = tid \<or> away_team_id m = tid)) opp
      = filter (\<lambda>m. match_date m < d \<and> (home_team_id m = tid \<or> away_team_id m = tid)) opp'"
    by (rule filter_before_cong [OF assms(1)]) (use assms(2) in simp)
  then show ?thesis by (simp add: calculate_opponent_last_5_def)
qed

lemma h2h_matches_past:
  assumes "before D df = before D df'" and "d \<le> D"
  shows "get_h2h_matches df opp_id d last_n = get_h2h_matches df' opp_id d last_n"
proof -
  have "filter (\<lambda>m. match_date m < d
                       \<and> ((home_team_id m = REAL_MADRID_ID \<and> away_team_id m = opp_id)
                          \<or> (home_team_id m = opp_id \<and> away_team_id m = REAL_MADRID_ID))) df
      = filter (\<lambda>m. match_date m < d
                       \<and> ((home_team_id m = REAL_MADRID_ID \<and> away_team_id m = opp_id)
                          \<or> (home_team_id m = opp_id \<and> away_team_id m = REAL_MADRID_ID))) df'"
    by (rule filter_before_cong [OF assms(1)]) (use assms(2) in simp)
  then show ?thesis by (simp add: get_h2h_matches_def)
qed

lemma season_ppm_past:
  assumes rm: "before D rm = before D rm'" and al: "before D all_matches = before D all_matches'"
    and le: "d \<le> D"
    and known: "tid \<noteq> 1 \<Longrightarrow>
       (get_all_opp_matches all_matches tid = None) = (get_all_opp_matches all_matches' tid = None)"
  shows "calculate_team_points_per_match_season
           \<lparr>sc_rm_matches = rm, sc_season_manager = S, sc_team_id = tid\<rparr> all_matches d
       = calculate_team_points_per_match_season
           \<lparr>sc_rm_matches = rm', sc_season_manager = S, sc_team_id = tid\<rparr> all_matches' d"
proof (cases "tid = 1")
  case True
  have "\<And>p::season. filter (\<lambda>m. start_date p \<le> match_date m \<and> match_date m < d) rm
           = filter (\<lambda>m. start_date p \<le> match_date m \<and> match_date m < d) rm'"
    by (rule filter_before_cong [OF rm]) (use le in simp)
  with True show ?thesis
    by (simp add: calculate_team_points_per_match_season_def Let_def split: prev_season.splits)
next
  case False
  let ?T = "filter (\<lambda>m. home_team_id m = tid \<or> away_team_id m = tid) all_matches"
  let ?T' = "filter (\<lambda>m. home_team_id m = tid \<or> away_team_id m = tid) all_matches'"
  have win: "\<And>p::season. filter (\<lambda>m. start_date p \<le> match_date m \<and> match_date m < d) ?T
           = filter (\<lambda>m. start_date p \<le> match_date m \<and> match_date m < d) ?T'"
    by (rule filter_team_before_cong [OF al]) (use le in simp)
  show ?thesis
  proof (cases "?T = []")
    case True
    then have "get_all_opp_matches all_matches tid = None" by (rule get_all_opp_matches_None)
    with known [OF False] have "get_all_opp_matches all_matches' tid = None" by simp
    with \<open>get_all_opp_matches all_matches tid = None\<close> False show ?thesis
      by (simp add: calculate_team_points_per_match_season_def Let_def split: prev_season.splits)
  next
    case ne: False
    then have s: "get_all_opp_matches all_matches tid = Some ?T" by (rule get_all_opp_matches_Some)
    with known [OF False] have "?T' \<noteq> []"
      using get_all_opp_matches_None [of tid all_matches'] by auto
    then have s': "get_all_opp_matches all_matches' tid = Some ?T'"
      by (rule get_all_opp_matches_Some)
    show ?thesis using False s s' win
      by (simp add: calculate_team_points_per_match_season_def Let_def split: prev_season.splits)
  qed
qed

lemma tier_stats_past:
  assumes rm: "before D rm = before D rm'" and al: "before D all_matches = before D all_matches'"
    and le: "d \<le> D"
    and known: "tid \<noteq> 1 \<Longrightarrow>
       (get_all_opp_matches all_matches tid = None) = (get_all_opp_matches all_matches' tid = None)"
  shows "calculate_team_stats_against_tier
           \<lparr>sc_rm_matches = rm, sc_season_manager = S, sc_team_id = tid\<rparr> all_matches d mn mx
       = calculate_team_stats_against_tier
           \<lparr>sc_rm_matches = rm', sc_season_manager = S, sc_team_id = tid\<rparr> all_matches' d mn mx"
proof (cases "tid = 1")
  case True
  have "\<And>p::season. tier_window_rm p d rm = tier_window_rm p d rm'"
    unfolding tier_window_rm_def
    by (rule filter_before_cong [OF rm]) (use le in simp)
  with True show ?thesis
    by (simp add: calculate_team_stats_against_tier_def Let_def split: prev_season.splits sum.splits)
next
  case False
  let ?T = "filter (\<lambda>m. home_team_id m = tid \<or> away_team_id m = tid) all_matches"
  let ?T' = "filter (\<lambda>m. home_team_id m = tid \<or> away_team_id m = tid) all_matches'"
  have w1: "filter (\<lambda>m. ymd 2019 8 1 \<le> match_date m \<and> match_date m < d) ?T
          = filter (\<lambda>m. ymd 2019 8 1 \<le> match_date m \<and> match_date m < d) ?T'"
    by (rule filter_team_before_cong [OF al]) (use le in simp)
  have w2: "\<And>p::season. filter (\<lambda>m. match_date m < d \<and> start_date p \<le> match_date m) ?T
           = filter (\<lambda>m. match_date m < d \<and> start_date p \<le> match_date m) ?T'"
    by (rule filter_team_before_cong [OF al]) (use le in simp)
  have win: "tier_window_opp prev d ?T = tier_window_opp prev d ?T'" for prev
    by (cases prev) (simp_all only: tier_window_opp_def prev_season.case w1 w2)
  show ?thesis
  proof (cases "?T = []")
    case True
    then have "get_all_opp_matches all_matches tid = None" by (rule get_all_opp_matches_None)
    with known [OF False] have "get_all_opp_matches all_matches' tid = None" by simp
    with \<open>get_all_opp_matches all_matches tid = None\<close> False show ?thesis
      by (simp add: calculate_team_stats_against_tier_def Let_def split: prev_season.splits sum.splits)
  next
    case ne: False
    then have s: "get_all_opp_matches all_matches tid = Some ?T" by (rule get_all_opp_matches_Some)
    with known [OF False] have "?T' \<noteq> []"
      using get_all_opp_matches_None [of tid all_matches'] by auto
    then have s': "get_all_opp_matches all_matches' tid = Some ?T'"
      by (rule get_all_opp_matches_Some)
    show ?thesis using False s s' win
      by (simp add: calculate_team_stats_against_tier_def Let_def split: prev_season.splits sum.splits)
  qed
qed

lemma team_row_known:
  "(\<exists>m \<in> set all_matches. home_team_id m = tid \<or> away_team_id m = tid) \<Longrightarrow>
     get_all_opp_matches all_matches tid \<noteq> None"
  by (auto simp: get_all_opp_matches_def Let_def filter_empty_conv)

text \<open>
  Claim C1. The features are computed for a match and its two teams: the focal team, or
  an opponent whose id is read off that match's row, so that every version of the
  all-matches table holds at least one row of it. Let two versions of the match tables
  hold the same rows dated strictly before \<open>D\<close>; they may differ in any way in the rows
  dated \<open>D\<close> or later. Then for every date \<open>d \<le> D\<close> every feature computed for \<open>d\<close> is
  the same on both versions: the rolling last-n form, the season PPM, the tier statistics
  of every tier, the head-to-head summary, the overall head-to-head PPM and the
  prior-meeting flag.
\<close>

theorem no_look_ahead:
  assumes rm: "before D rm = before D rm'"
    and opp: "before D opp = before D opp'"
    and al: "before D all_matches = before D all_matches'"
    and df: "before D df = before D df'"
    and le: "d \<le> D"
    and team_row: "tid = 1
       \<or> (\<exists>m \<in> set all_matches. home_team_id m = tid \<or> away_team_id m = tid)"
    and team_row': "tid = 1
       \<or> (\<exists>m \<in> set all_matches'. home_team_id m = tid \<or> away_team_id m = tid)"
  shows "calculate_last_5_stats
            \<lparr>st_rm_matches = rm, st_opp_matches = opp, st_season_manager = S\<rparr> d tid n
          = calculate_last_5_stats
            \<lparr>st_rm_matches = rm', st_opp_matches = opp', st_season_manager = S\<rparr> d tid n
       \<and> calculate_team_points_per_match_season
            \<lparr>sc_rm_matches = rm, sc_season_manager = S, sc_team_id = tid\<rparr> all_matches d
          = calculate_team_points_per_match_season
            \<lparr>sc_rm_matches = rm', sc_season_manager = S, sc_team_id = tid\<rparr> all_matches' d
       \<and> calculate_team_stats_against_tier
            \<lparr>sc_rm_matches = rm, sc_season_manager = S, sc_team_id = tid\<rparr> all_matches d mn mx
          = calculate_team_stats_against_tier
            \<lparr>sc_rm_matches = rm', sc_season_manager = S, sc_team_id = tid\<rparr> all_matches' d mn mx
       \<and> calculate_h2h_stats df opp_id d last_n = calculate_h2h_stats df' opp_id d last_n
       \<and> calculate_h2h_overall_ppm df opp_id d = calculate_h2h_overall_ppm df' opp_id d
       \<and> is_playing_before df d opp_id = is_playing_before df' d opp_id"
proof -
  have known: "(get_all_opp_matches all_matches tid = None)
             = (get_all_opp_matches all_matches' tid = None)" if "tid \<noteq> 1"
    using that team_row team_row' team_row_known [of all_matches tid]
      team_row_known [of all_matches' tid] by auto
  have l5: "calculate_last_5_stats
            \<lparr>st_rm_matches = rm, st_opp_matches = opp, st_season_manager = S\<rparr> d tid n
          = calculate_last_5_stats
            \<lparr>st_rm_matches = rm', st_opp_matches = opp', st_season_manager = S\<rparr> d tid n"
    unfolding calculate_last_5_stats_def
    using last5_rm_past [OF rm le, of opp S n opp'] last5_opp_past [OF opp le, of rm S tid n rm']
    by simp
  have h: "get_h2h_matches df opp_id d k = get_h2h_matches df' opp_id d k" for k
    by (rule h2h_matches_past [OF df le])
  have h1: "calculate_h2h_stats df opp_id d last_n = calculate_h2h_stats df' opp_id d last_n"
    by (simp add: calculate_h2h_stats_def h)
  have h2: "calculate_h2h_overall_ppm df opp_id d = calculate_h2h_overall_ppm df' opp_id d"
    by (simp add: calculate_h2h_overall_ppm_def h)
  have h3: "is_playing_before df d opp_id = is_playing_before df' d opp_id"
    by (simp add: is_playing_before_def h)
  from l5 season_ppm_past [OF rm al le known] tier_stats_past [OF rm al le known] h1 h2 h3
  show ?thesis by simp
qed

theorem no_look_ahead_witness:
  "calculate_last_5_stats
      \<lparr>st_rm_matches = [row (ymd 2020 2 1) 2 1 1 0 1 2, row (ymd 2021 1 10) 1 2 0 0 2 1],
       st_opp_matches = [row (ymd 2020 2 1) 2 1 1 0 1 2, row (ymd 2021 1 10) 1 2 0 0 2 1],
       st_season_manager = seasons_init\<rparr> (ymd 2021 1 10) 2 5
    = calculate_last_5_stats
      \<lparr>st_rm_matches = [row (ymd 2020 2 1) 2 1 1 0 1 2, row (ymd 2021 1 10) 1 2 5 0 2 1],
       st_opp_matches = [row (ymd 2020 2 1) 2 1 1 0 1 2, row (ymd 2021 1 10) 1 2 5 0 2 1],
       st_season_manager = seasons_init\<rparr> (ymd 2021 1 10) 2 5
   \<and> calculate_team_points_per_match_season
      \<lparr>sc_rm_matches = [row (ymd 2020 2 1) 2 1 1 0 1 2, row (ymd 2021 1 10) 1 2 0 0 2 1],
       sc_season_manager = seasons_init, sc_team_id = 2\<rparr>
      [row (ymd 2020 2 1) 2 1 1 0 1 2, row (ymd 2021 1 10) 1 2 0 0 2 1] (ymd 2021 1 10)
    = calculate_team_points_per_match_season
      \<lparr>sc_rm_matches = [row (ymd 2020 2 1) 2 1 1 0 1 2, row (ymd 2021 1 10) 1 2 5 0 2 1],
       sc_season_manager = seasons_init, sc_team_id = 2\<rparr>
      [row (ymd 2020 2 1) 2 1 1 0 1 2, row (ymd 2021 1 10) 1 2 5 0 2 1] (ymd 2021 1 10)
   \<and> calculate_team_stats_against_tier
      \<lparr>sc_rm_matches = [row (ymd 2020 2 1) 2 1 1 0 1 2, row (ymd 2021 1 10) 1 2 0 0 2 1],
       sc_season_manager = seasons_init, sc_team_id = 2\<rparr>
      [row (ymd 2020 2 1) 2 1 1 0 1 2, row (ymd 2021 1 10) 1 2 0 0 2 1] (ymd 2021 1 10)
      TOP_TIER_MIN_PPM None
    = calculate_team_stats_against_tier
      \<lparr>sc_rm_matches = [row (ymd 2020 2 1) 2 1 1 0 1 2, row (ymd 2021 1 10) 1 2 5 0 2 1],
       sc_season_manager = seasons_init, sc_team_id = 2\<rparr>
      [row (ymd 2020 2 1) 2 1 1 0 1 2, row (ymd 2021 1 10) 1 2 5 0 2 1] (ymd 2021 1 10)
      TOP_TIER_MIN_PPM None
   \<and> calculate_h2h_stats [row (ymd 2020 2 1) 2 1 1 0 1 2, row (ymd 2021 1 10) 1 2 0 0 2 1]
        2 (ymd 2021 1 10) (Some 5)
    = calculate_h2h_stats [row (ymd 2020 2 1) 2 1 1 0 1 2, row (ymd 2021 1 10) 1 2 5 0 2 1]
        2 (ymd 2021 1 10) (Some 5)"
proof -
  let ?T = "[row (ymd 2020 2 1) 2 1 1 0 1 2, row (ymd 2021 1 10) 1 2 0 0 2 1]"
  let ?T' = "[row (ymd 2020 2 1) 2 1 1 0 1 2, row (ymd 2021 1 10) 1 2 5 0 2 1]"
  have past: "before (ymd 2021 1 10) ?T = before (ymd 2021 1 10) ?T'"
    by (simp add: before_def row_def ymd_def)
  have le: "ymd 2021 1 10 \<le> ymd 2021 1 10" by simp
  have r: "(2::int) = 1 \<or> (\<exists>m \<in> set ?T. home_team_id m = 2 \<or> away_team_id m = 2)"
    by (simp add: row_def)
  have r': "(2::int) = 1 \<or> (\<exists>m \<in> set ?T'. home_team_id m = 2 \<or> away_team_id m = 2)"
    by (simp add: row_def)
  from no_look_ahead [OF past past past past le r r',
      of seasons_init 5 "TOP_TIER_MIN_PPM" None 2 "Some 5"]
  show ?thesis by simp
qed

end
